theory Spec2Isabelle
  imports Main "HOL-Library.Word" "HOL-Library.Extended_Nat"
begin

section \<open>The git execution layer of the desktop client\<close>

text \<open>
  The development embeds the git process layer of the client: the options merge, the
  environment handed to the subprocess, the success and expected-error policy of
  \<open>git\<close>, the \<open>GitError\<close> constructor, \<open>getDescriptionForError\<close> and
  \<open>parseConfigLockFilePathFromError\<close>. What the layer gets from outside (dugite's
  \<open>exec\<close>, \<open>parseError\<close> and \<open>parseBadConfigValueErrorInfo\<close>, Node's
  \<open>Buffer.toString\<close> and \<open>Path.resolve\<close>, the trampoline environment, the build
  flags) is a field of the record \<open>deps\<close> or a parameter.
\<close>

subsection \<open>Strings\<close>

text \<open>
  A JavaScript string is a \<open>string\<close>. Text outside ASCII is written by its code
  points and stands for its UTF-8 bytes; the layer only compares such text and tests it
  for emptiness.
\<close>

definition utf8_char :: "nat \<Rightarrow> string" where
  "utf8_char n =
     (if n < 0x80 then [char_of n]
      else if n < 0x800 then [char_of (0xC0 + n div 64), char_of (0x80 + n mod 64)]
      else if n < 0x10000 then
        [char_of (0xE0 + n div 4096), char_of (0x80 + n div 64 mod 64), char_of (0x80 + n mod 64)]
      else
        [char_of (0xF0 + n div 262144), char_of (0x80 + n div 4096 mod 64),
         char_of (0x80 + n div 64 mod 64), char_of (0x80 + n mod 64)])"

definition utf8 :: "nat list \<Rightarrow> string" where
  "utf8 ns = concat (map utf8_char ns)"

text \<open>The decimal rendering of an integer inside a template literal.\<close>

fun digits :: "nat \<Rightarrow> string" where
  "digits n = (if n < 10 then [char_of (48 + n)] else digits (n div 10) @ [char_of (48 + n mod 10)])"

declare digits.simps [simp del]

definition number_toString :: "int \<Rightarrow> string" where
  "number_toString i = (if i < 0 then CHR ''-'' # digits (nat (- i)) else digits (nat i))"

subsection \<open>The symbolic error codes\<close>

text \<open>
  \<open>DugiteError\<close> is dugite's \<open>GitError\<close> enumeration. It is declared in the dugite
  package, outside the repository, so its list of members is not known here. The
  constructors without an argument are the members that \<open>isAuthFailureError\<close> and
  \<open>getDescriptionForError\<close> name; \<open>Unnamed n\<close> stands for a member of the declaration
  that the source does not name, should there be one.
\<close>

datatype (plugins only: code) DugiteError =
    BadConfigValue | SSHKeyAuditUnverified | SSHAuthenticationFailed | SSHPermissionDenied
  | HTTPSAuthenticationFailed | RemoteDisconnection | HostDown | RebaseConflicts
  | MergeConflicts | HTTPSRepositoryNotFound | SSHRepositoryNotFound | PushNotFastForward
  | BranchDeletionFailed | DefaultBranchDeletionFailed | RevertConflicts | EmptyRebasePatch
  | NoMatchingRemoteBranch | NoExistingRemoteBranch | NothingToCommit | NoSubmoduleMapping
  | SubmoduleRepositoryDoesNotExist | InvalidSubmoduleSHA | LocalPermissionDenied
  | InvalidMerge | InvalidRebase | NonFastForwardMergeIntoEmptyHead | PatchDoesNotApply
  | BranchAlreadyExists | BadRevision | NotAGitRepository | CannotMergeUnrelatedHistories
  | LFSAttributeDoesNotMatch | BranchRenameFailed | PathDoesNotExist | InvalidObjectName
  | OutsideRepository | LockFileAlreadyExists | NoMergeToAbort | LocalChangesOverwritten
  | UnresolvedConflicts | GPGFailedToSignData | ConflictModifyDeletedInBranch
  | PushWithFileSizeExceedingLimit | HexBranchNameRejected | ForcePushRejected
  | InvalidRefLength | ProtectedBranchRequiresReview | ProtectedBranchForcePush
  | ProtectedBranchDeleteRejected | ProtectedBranchRequiredStatus | PushWithPrivateEmail
  | ConfigLockFileAlreadyExists | RemoteAlreadyExists | TagAlreadyExists
  | MergeWithLocalChanges | RebaseWithLocalChanges | MergeCommitNoMainlineOption
  | UnsafeDirectory | PathExistsButNotInRef
  | Unnamed nat

subsection \<open>Results, options and what the layer depends on\<close>

text \<open>The captured output of the subprocess: \<open>string | Buffer\<close>.\<close>

datatype captured = Str string | Buf "8 word list"

fun captured_length :: "captured \<Rightarrow> nat" where
  "captured_length (Str s) = length s"
| "captured_length (Buf b) = length b"

record DugiteResult =
  exitCode :: int
  stdout :: captured
  stderr :: captured

record IGitResult = DugiteResult +
  gitError :: "DugiteError option"
  gitErrorDescription :: "string option"
  path :: string

text \<open>
  An optional property of an options object is missing, present and \<open>undefined\<close>, or
  present with a value; object spread copies a present property whatever it holds.
\<close>

datatype 'a optional = Absent | Undefined | Value 'a

datatype encoding = buffer | BufferEncoding string

text \<open>
  An environment object: its own properties, each holding a string or \<open>undefined\<close>.
\<close>

type_synonym env = "string \<rightharpoonup> string option"

text \<open>
  The options of \<open>git\<close>. Of dugite's own options only \<open>env\<close>, \<open>encoding\<close> and
  \<open>maxBuffer\<close> are kept; \<open>processCallback\<close> is what fills \<open>terminalOutput\<close>, which
  the model takes from the run of \<open>exec\<close> (see \<open>exec_run\<close>).
\<close>

record IGitExecutionOptions =
  successExitCodes :: "int set optional"
  expectedErrors :: "DugiteError set optional"
  trackLFSProgress :: "bool optional"
  isBackgroundTask :: "bool optional"
  env :: "env optional"
  encoding :: "encoding optional"
  maxBuffer :: "enat optional"

text \<open>
  What \<open>exec\<close> throws: a Node.js errno exception (it carries the OS error code), dugite's
  \<open>ExecError\<close> with code \<open>ERR_CHILD_PROCESS_STDIO_MAXBUFFER\<close> (message, stdout, stderr), or
  anything else. \<open>isErrnoException\<close> and \<open>isMaxBufferExceededError\<close> are the tests for the
  first two constructors.
\<close>

datatype exec_exception =
    ErrnoException string
  | MaxBufferExceeded string captured captured
  | OtherException string

text \<open>
  One run of \<open>exec\<close>: what it settles with, and the value the variable
  \<open>terminalOutput\<close> holds by then (the last chunk the tail stream delivered, or the empty
  string).
\<close>

record exec_run =
  outcome :: "exec_exception + DugiteResult"
  terminal :: string

record deps =
  DARWIN :: bool
  WIN32 :: bool
  kStringMaxLength :: nat
  toString :: "8 word list \<Rightarrow> string"
  enum_number :: "DugiteError \<Rightarrow> int"
  parseError :: "string \<Rightarrow> DugiteError option"
  parseBadConfigValueErrorInfo :: "string \<Rightarrow> (string \<times> string) option"
  trampolineEnv :: "string \<Rightarrow> bool \<Rightarrow> env option \<Rightarrow> env"
  exec :: "string list \<Rightarrow> string \<Rightarrow> IGitExecutionOptions \<Rightarrow> exec_run"
  resolve :: "string \<Rightarrow> string \<Rightarrow> string"

definition coerceToString :: "deps \<Rightarrow> captured \<Rightarrow> string" where
  "coerceToString d v = (case v of Buf b \<Rightarrow> toString d b | Str s \<Rightarrow> s)"

subsection \<open>The error describer\<close>

text \<open>
  At run time an enumeration value is a number, and the type annotation does not stop a
  number that belongs to no member from reaching a function. \<open>Member e\<close> is the value
  of the member \<open>e\<close>; \<open>Outside n\<close> is a number \<open>n\<close> that is the value of no member.
  The default branch of the switch below is taken by \<open>Outside n\<close> and by
  \<open>Member (Unnamed n)\<close>.
\<close>

datatype error_value = Member DugiteError | Outside int

definition error_value_toString :: "deps \<Rightarrow> error_value \<Rightarrow> string" where
  "error_value_toString d v =
     (case v of Member e \<Rightarrow> number_toString (enum_number d e) | Outside n \<Rightarrow> number_toString n)"

definition isAuthFailureError :: "error_value \<Rightarrow> bool" where
  "isAuthFailureError error =
     (case error of
        Member SSHAuthenticationFailed \<Rightarrow> True
      | Member SSHPermissionDenied \<Rightarrow> True
      | Member HTTPSAuthenticationFailed \<Rightarrow> True
      | _ \<Rightarrow> False)"

text \<open>
  Modelled from the spec: \<open>assertNever\<close> of \<open>lib/fatal-error\<close>, which is not among the
  sources. The spec calls it a fatal "unknown error" signal that fails loudly: it throws
  an error with the message it is given (\<open>Inl\<close>) and returns nothing.
\<close>

definition assertNever :: "string \<Rightarrow> string + 'a" where
  "assertNever msg = Inl msg"

definition authFailureDescription :: "deps \<Rightarrow> string" where
  "authFailureDescription d =
    (let menuHint =
       (if DARWIN d then ''GitHub Desktop > '' @ utf8 [0x8BBE, 0x7F6E, 0x3002]
        else utf8 [0x6587, 0x4EF6] @ '' > '' @ utf8 [0x8BBE, 0x7F6E, 0x3002])
     in
     utf8 [0x8EAB, 0x4EFD, 0x8BA4, 0x8BC1, 0x5931, 0x8D25, 0xFF0C, 0x901A, 0x5E38, 0x53EF,
        0x80FD, 0x662F, 0x56E0, 0x4E3A, 0xFF1A, 0xA, 0xA] @ ''- '' @ utf8 [0x60A8, 0x5C1A,
        0x672A, 0x767B, 0x5F55, 0x60A8, 0x7684, 0x8D26, 0x53F7, 0xFF1A, 0x89C1] @ '' '' @
        menuHint @
     utf8 [0xA] @ ''- '' @ utf8 [0x60A8, 0x53EF, 0x80FD, 0x9700, 0x8981, 0x9000, 0x51FA,
        0x5E76, 0x91CD, 0x65B0, 0x767B, 0x5F55, 0x6765, 0x5237, 0x65B0, 0x767B, 0x5F55,
        0x4EE4, 0x724C, 0x3002, 0xA] @ ''- '' @ utf8 [0x60A8, 0x6CA1, 0x6709, 0x8BE5,
        0x4ED3, 0x5E93, 0x7684, 0x8BBF, 0x95EE, 0x6743, 0x9650, 0x3002, 0xA] @ ''- '' @
        utf8 [0x8BE5, 0x4ED3, 0x5E93, 0x5728] @ '' GitHub '' @ utf8 [0x4E0A, 0x5DF2, 0x7ECF,
        0x88AB, 0x5B58, 0x6863, 0xFF0C, 0x8BF7, 0x68C0, 0x67E5, 0x4ED3, 0x5E93, 0x8BBE,
        0x7F6E, 0x6765, 0x786E, 0x5B9A, 0x60A8, 0x662F, 0x5426, 0x4ECD, 0x6709, 0x6743,
        0x63A8, 0x9001, 0x63D0, 0x4EA4, 0x3002, 0xA] @ ''- '' @ utf8 [0x4F7F, 0x7528] @
        '' SSH '' @ utf8 [0x8BA4, 0x8BC1, 0x65F6, 0xFF0C, 0x60A8, 0x7684, 0x79C1, 0x94A5,
        0x4E0D, 0x6B63, 0x786E, 0xFF0C, 0x8BF7, 0x68C0, 0x67E5, 0x767B, 0x5F55, 0x5BC6,
        0x94A5, 0x662F, 0x5426, 0x5DF2, 0x6DFB, 0x52A0, 0x5230] @ '' ssh-agent '' @
        utf8 [0x5E76, 0x4E0E, 0x60A8, 0x7684, 0x8D26, 0x53F7, 0x76F8, 0x5173, 0x8054,
        0x3002, 0xA] @ ''- '' @ utf8 [0x4F7F, 0x7528] @ '' SSH '' @ utf8 [0x8BA4, 0x8BC1,
        0x65F6, 0xFF0C, 0x5BF9, 0x65B9, 0x516C, 0x94A5, 0x4E0D, 0x5339, 0x914D, 0xFF0C,
        0x8BF7, 0x68C0, 0x67E5, 0x60A8, 0x7684, 0x4ED3, 0x5E93, 0x6258, 0x7BA1, 0x670D,
        0x52A1, 0x662F, 0x5426, 0x901A, 0x8FC7, 0x4E86, 0x4E3B, 0x673A, 0x5BC6, 0x94A5,
        0x9A8C, 0x8BC1, 0x3002, 0xA] @ ''- '' @ utf8 [0x4F7F, 0x7528, 0x8D26, 0x53F7,
        0x5BC6, 0x7801, 0x8BA4, 0x8BC1, 0x65F6, 0xFF0C, 0x60A8, 0x53EF, 0x80FD, 0x9700,
        0x8981, 0x628A, 0x4E2A, 0x4EBA, 0x8BBF, 0x95EE, 0x4EE4, 0x724C, 0x4F5C, 0x4E3A,
        0x5BC6, 0x7801, 0x6765, 0x8F93, 0x5165, 0xFF0C, 0x5177, 0x4F53, 0x8BF7, 0x67E5,
        0x9605, 0x60A8, 0x7684, 0x4ED3, 0x5E93, 0x6258, 0x7BA1, 0x670D, 0x52A1, 0x7684,
        0x6587, 0x6863, 0x3002])"

definition getDescriptionForError :: "deps \<Rightarrow> error_value \<Rightarrow> string \<Rightarrow> string + string option" where
  "getDescriptionForError d error stderr' =
    (if isAuthFailureError error then Inr (Some (authFailureDescription d))
     else
      (case error of
        Member BadConfigValue \<Rightarrow>
          (case parseBadConfigValueErrorInfo d stderr' of
             None \<Rightarrow>
               Inr (Some (''Git '' @ utf8 [0x914D, 0x7F6E, 0x6587, 0x4EF6, 0x7684, 0x503C, 0x6709,
                 0x8BEF, 0x3002]))
           | Some (key, val) \<Rightarrow>
               Inr (Some (''Git '' @ utf8 [0x914D, 0x7F6E, 0x6587, 0x4EF6, 0x4E2D, 0x952E] @ '' '' @
                 utf8 [0x27] @ key @ utf8 [0x27] @ '' '' @ utf8 [0x7684, 0x503C] @ '' '' @
                 utf8 [0x27] @ val @ utf8 [0x27] @ '' '' @ utf8 [0x6709, 0x8BEF, 0x3002])))
      | Member SSHKeyAuditUnverified \<Rightarrow> Inr (Some (''SSH '' @ utf8 [0x5BC6, 0x94A5,
            0x672A, 0x9A8C, 0x8BC1, 0x3002]))
      | Member RemoteDisconnection \<Rightarrow> Inr (Some (utf8 [0x8FDC, 0x7A0B, 0x7AEF, 0x5DF2,
            0x65AD, 0x5F00, 0x8FDE, 0x63A5, 0xFF0C, 0x8BF7, 0x68C0, 0x67E5, 0x7F51, 0x7EDC,
            0x8FDE, 0x63A5, 0x5E76, 0x91CD, 0x8BD5, 0x3002]))
      | Member HostDown \<Rightarrow> Inr (Some (utf8 [0x670D, 0x52A1, 0x5668, 0x4E0D, 0x53EF,
            0x7528, 0xFF0C, 0x8BF7, 0x68C0, 0x67E5, 0x7F51, 0x7EDC, 0x8FDE, 0x63A5, 0x5E76,
            0x91CD, 0x8BD5, 0x3002]))
      | Member RebaseConflicts \<Rightarrow> Inr (Some (utf8 [0x91CD, 0x6784, 0x51FA, 0x73B0,
            0x51B2, 0x7A81, 0xFF0C, 0x8BF7, 0x5148, 0x89E3, 0x51B3, 0x51B2, 0x7A81, 0x518D,
            0x7EE7, 0x7EED, 0x3002]))
      | Member MergeConflicts \<Rightarrow> Inr (Some (utf8 [0x5408, 0x5E76, 0x51FA, 0x73B0,
            0x51B2, 0x7A81, 0xFF0C, 0x8BF7, 0x5148, 0x89E3, 0x51B3, 0x51B2, 0x7A81, 0x5E76,
            0x63D0, 0x4EA4, 0x3002]))
      | Member HTTPSRepositoryNotFound \<Rightarrow> Inr (Some (utf8 [0x4ED3, 0x5E93, 0x4E0D,
            0x5B58, 0x5728, 0xFF0C, 0x53EF, 0x80FD, 0x60A8, 0x6CA1, 0x6709, 0x8BBF, 0x95EE,
            0x6743, 0x9650, 0xFF0C, 0x6216, 0x8005, 0x5B83, 0x5DF2, 0x7ECF, 0x88AB, 0x5220,
            0x9664, 0x6216, 0x91CD, 0x547D, 0x540D, 0x4E86, 0x3002]))
      | Member SSHRepositoryNotFound \<Rightarrow> Inr (Some (utf8 [0x4ED3, 0x5E93, 0x4E0D, 0x5B58,
            0x5728, 0xFF0C, 0x53EF, 0x80FD, 0x60A8, 0x6CA1, 0x6709, 0x8BBF, 0x95EE, 0x6743,
            0x9650, 0xFF0C, 0x6216, 0x8005, 0x5B83, 0x5DF2, 0x7ECF, 0x88AB, 0x5220, 0x9664,
            0x6216, 0x91CD, 0x547D, 0x540D, 0x4E86, 0x3002]))
      | Member PushNotFastForward \<Rightarrow> Inr (Some (utf8 [0x5728, 0x60A8, 0x4E0A, 0x6B21,
            0x62C9, 0x53D6, 0x8FC7, 0x540E, 0xFF0C, 0x4ED3, 0x5E93, 0x6709, 0x66F4, 0x65B0,
            0xFF0C, 0x60A8, 0x5728, 0x63A8, 0x9001, 0x524D, 0x9700, 0x8981, 0x5148, 0x62C9,
            0x53D6, 0x66F4, 0x65B0, 0x3002]))
      | Member BranchDeletionFailed \<Rightarrow> Inr (Some (utf8 [0x65E0, 0x6CD5, 0x5220, 0x9664,
            0x5206, 0x652F, 0xFF0C, 0x5B83, 0x53EF, 0x80FD, 0x5DF2, 0x7ECF, 0x88AB, 0x5220,
            0x6389, 0x4E86, 0x3002]))
      | Member DefaultBranchDeletionFailed \<Rightarrow> Inr (Some (utf8 [0x6B64, 0x5206, 0x652F,
            0x662F, 0x4ED3, 0x5E93, 0x7684, 0x9ED8, 0x8BA4, 0x5206, 0x652F, 0xFF0C, 0x4E0D,
            0x53EF, 0x4EE5, 0x5220, 0x9664, 0x3002]))
      | Member RevertConflicts \<Rightarrow> Inr (Some (utf8 [0x8BF7, 0x5148, 0x5408, 0x5E76,
            0x548C, 0x63D0, 0x4EA4, 0x6539, 0x52A8, 0xFF0C, 0x7136, 0x540E, 0x624D, 0x80FD,
            0x5B8C, 0x6210, 0x9006, 0x8F6C, 0x63D0, 0x4EA4, 0x3002]))
      | Member EmptyRebasePatch \<Rightarrow> Inr (Some (utf8 [0x6CA1, 0x6709, 0x53EF, 0x5E94,
            0x7528, 0x7684, 0x6539, 0x52A8, 0x3002]))
      | Member NoMatchingRemoteBranch \<Rightarrow> Inr (Some (utf8 [0x5F53, 0x524D, 0x5206,
            0x652F, 0x6CA1, 0x6709, 0x5BF9, 0x5E94, 0x7684, 0x8FDC, 0x7A0B, 0x5206, 0x652F,
            0x3002]))
      | Member NothingToCommit \<Rightarrow> Inr (Some (utf8 [0x6CA1, 0x6709, 0x53EF, 0x63D0,
            0x4EA4, 0x7684, 0x6539, 0x52A8, 0x3002]))
      | Member NoSubmoduleMapping \<Rightarrow> Inr (Some (utf8 [0x5B50, 0x6A21, 0x5757, 0x5DF2,
            0x4ECE] @ '' .gitmodules '' @ utf8 [0x79FB, 0x9664, 0xFF0C, 0x4F46, 0x5B83,
            0x7684, 0x6587, 0x4EF6, 0x5939, 0x5C1A, 0x672A, 0x5220, 0x9664, 0xFF0C, 0x8BF7,
            0x5220, 0x9664, 0x6587, 0x4EF6, 0x5939, 0xFF0C, 0x63D0, 0x4EA4, 0x6539, 0x52A8,
            0xFF0C, 0x7136, 0x540E, 0x91CD, 0x8BD5, 0x3002]))
      | Member SubmoduleRepositoryDoesNotExist \<Rightarrow> Inr (Some (utf8 [0x5B50, 0x6A21,
            0x5757, 0x6307, 0x5411, 0x4E00, 0x4E2A, 0x4E0D, 0x5B58, 0x5728, 0x7684, 0x4F4D,
            0x7F6E, 0x3002]))
      | Member InvalidSubmoduleSHA \<Rightarrow> Inr (Some (utf8 [0x5B50, 0x6A21, 0x5757, 0x6307,
            0x5411, 0x4E00, 0x4E2A, 0x4E0D, 0x5B58, 0x5728, 0x7684, 0x63D0, 0x4EA4,
            0x3002]))
      | Member LocalPermissionDenied \<Rightarrow> Inr (Some (utf8 [0x6CA1, 0x6709, 0x8BBF, 0x95EE,
            0x6743, 0x9650, 0x3002]))
      | Member InvalidMerge \<Rightarrow> Inr (Some (utf8 [0x8BE5, 0x5185, 0x5BB9, 0x4E0D, 0x80FD,
            0x5408, 0x5E76, 0x3002]))
      | Member InvalidRebase \<Rightarrow> Inr (Some (utf8 [0x8BE5, 0x5185, 0x5BB9, 0x4E0D, 0x80FD,
            0x91CD, 0x6784, 0x3002]))
      | Member NonFastForwardMergeIntoEmptyHead \<Rightarrow> Inr (Some (utf8 [0x8BE5, 0x5408,
            0x5E76, 0x4E0D, 0x662F, 0x5FEB, 0x8FDB, 0x5408, 0x5E76, 0xFF0C, 0x65E0, 0x6CD5,
            0x5728, 0x7A7A, 0x5206, 0x652F, 0x4E0A, 0x6267, 0x884C, 0x3002]))
      | Member PatchDoesNotApply \<Rightarrow> Inr (Some (utf8 [0x8BE5, 0x6539, 0x52A8, 0x4E0E,
            0x4ED3, 0x5E93, 0x4E2D, 0x7684, 0x6587, 0x4EF6, 0x51B2, 0x7A81, 0x3002]))
      | Member BranchAlreadyExists \<Rightarrow> Inr (Some (utf8 [0x540C, 0x540D, 0x5206, 0x652F,
            0x5DF2, 0x5B58, 0x5728, 0x3002]))
      | Member BadRevision \<Rightarrow> Inr (Some (utf8 [0x65E0, 0x6548, 0x4FEE, 0x8BA2, 0x3002]))
      | Member NotAGitRepository \<Rightarrow> Inr (Some (utf8 [0x8FD9, 0x4E0D, 0x662F] @
            '' Git '' @ utf8 [0x4ED3, 0x5E93, 0x3002]))
      | Member ProtectedBranchForcePush \<Rightarrow> Inr (Some (utf8 [0x8BE5, 0x5206, 0x652F,
            0x53D7, 0x4FDD, 0x62A4, 0xFF0C, 0x4E0D, 0x5141, 0x8BB8, 0x5F3A, 0x5236, 0x63A8,
            0x9001, 0x3002]))
      | Member ProtectedBranchRequiresReview \<Rightarrow> Inr (Some (utf8 [0x8BE5, 0x5206, 0x652F,
            0x53D7, 0x4FDD, 0x62A4, 0xFF0C, 0x4EFB, 0x4F55, 0x66F4, 0x6539, 0x90FD, 0x9700,
            0x8981, 0x5BA1, 0x6838, 0x6279, 0x51C6, 0xFF0C, 0x4F60, 0x9700, 0x8981, 0x4E3A,
            0x6B64, 0x521B, 0x5EFA, 0x62C9, 0x53D6, 0x8BF7, 0x6C42, 0x3002]))
      | Member PushWithFileSizeExceedingLimit \<Rightarrow> Inr (Some (utf8 [0x63A8, 0x9001,
            0x5305, 0x542B, 0x4E86, 0x5927, 0x5C0F, 0x8D85, 0x8FC7] @ '' 100MB '' @
            utf8 [0x7684, 0x6587, 0x4EF6, 0xFF0C, 0x8D85, 0x8FC7] @ '' GitHub '' @
            utf8 [0x6587, 0x4EF6, 0x5927, 0x5C0F, 0x9650, 0x5236, 0xFF0C, 0x8BF7, 0x4ECE,
            0x5386, 0x53F2, 0x8BB0, 0x5F55, 0x4E2D, 0x5220, 0x9664, 0x8FC7, 0x5927, 0x7684,
            0x6587, 0x4EF6, 0x540E, 0x91CD, 0x8BD5, 0x3002]))
      | Member HexBranchNameRejected \<Rightarrow> Inr (Some (utf8 [0x5206, 0x652F, 0x540D, 0x79F0,
            0x4E0D, 0x80FD, 0x662F] @ '' 40 '' @ utf8 [0x4F4D, 0x5341, 0x516D, 0x8FDB,
            0x5236, 0x5B57, 0x7B26, 0x4E32, 0xFF0C, 0x8FD9, 0x4E0E] @ '' Git '' @
            utf8 [0x5BF9, 0x8C61, 0x7684, 0x683C, 0x5F0F, 0x6709, 0x51B2, 0x7A81, 0x3002]))
      | Member ForcePushRejected \<Rightarrow> Inr (Some (utf8 [0x8BE5, 0x5206, 0x652F, 0x62D2,
            0x7EDD, 0x4E86, 0x5F3A, 0x5236, 0x63A8, 0x9001, 0x3002]))
      | Member InvalidRefLength \<Rightarrow> Inr (Some (utf8 [0x5F15, 0x7528, 0x7684, 0x957F,
            0x5EA6, 0x4E0D, 0x80FD, 0x8D85, 0x8FC7] @ '' 255 '' @ utf8 [0x5B57, 0x7B26,
            0x3002]))
      | Member CannotMergeUnrelatedHistories \<Rightarrow> Inr (Some (utf8 [0x65E0, 0x6CD5, 0x5408,
            0x5E76, 0x4ECE, 0x4E0D, 0x76F8, 0x5173, 0x7684, 0x5386, 0x53F2, 0x8BB0, 0x5F55,
            0x3002]))
      | Member PushWithPrivateEmail \<Rightarrow> Inr (Some (utf8 [0x65E0, 0x6CD5, 0x63A8, 0x9001,
            0xFF0C, 0x63D0, 0x4EA4, 0x7684, 0x90AE, 0x7BB1, 0x5728] @ '' GitHub '' @
            utf8 [0x4E0A, 0x8BBE, 0x4E3A, 0x79C1, 0x6709, 0x3002, 0x5982, 0x9700, 0x7EE7,
            0x7EED, 0xFF0C, 0x8BF7, 0x8BBF, 0x95EE] @
            '' https://github.com/settings/emails '' @ utf8 [0x53D6, 0x6D88, 0x52FE,
            0x9009] @ '' '' @ utf8 [0x22, 0x4FDD, 0x6301, 0x6211, 0x7684, 0x90AE, 0x7BB1,
            0x5730, 0x5740, 0x4E3A, 0x79C1, 0x6709, 0x22, 0xFF0C, 0x7136, 0x540E, 0x56DE,
            0x6765, 0x7EE7, 0x7EED, 0x63D0, 0x4EA4, 0x3002, 0x63D0, 0x4EA4, 0x5B8C, 0x6210,
            0x540E, 0x53EF, 0x4EE5, 0x91CD, 0x65B0, 0x52FE, 0x9009, 0x3002]))
      | Member LFSAttributeDoesNotMatch \<Rightarrow> Inr (Some (utf8 [0x5168, 0x5C40] @
            '' Git '' @ utf8 [0x914D, 0x7F6E, 0x6587, 0x4EF6, 0x4E2D, 0x7684] @
            '' Git LFS '' @ utf8 [0x5C5E, 0x6027, 0x4E0E, 0x5F53, 0x524D, 0x4E0D, 0x7B26,
            0x3002]))
      | Member ProtectedBranchDeleteRejected \<Rightarrow> Inr (Some (utf8 [0x8BE5, 0x5206, 0x652F,
            0x53D7, 0x4FDD, 0x62A4, 0xFF0C, 0x4E0D, 0x80FD, 0x4ECE, 0x8FDC, 0x7A0B, 0x7AEF,
            0x5220, 0x9664, 0x3002]))
      | Member ProtectedBranchRequiredStatus \<Rightarrow> Inr (Some (utf8 [0x72B6, 0x6001, 0x68C0,
            0x67E5, 0x5931, 0x8D25, 0xFF0C, 0x63A8, 0x9001, 0x5DF2, 0x88AB, 0x8FDC, 0x7A0B,
            0x670D, 0x52A1, 0x5668, 0x62D2, 0x7EDD, 0x3002]))
      | Member BranchRenameFailed \<Rightarrow> Inr (Some (utf8 [0x65E0, 0x6CD5, 0x91CD, 0x547D,
            0x540D, 0x8BE5, 0x5206, 0x652F, 0x3002]))
      | Member PathDoesNotExist \<Rightarrow> Inr (Some (utf8 [0x8BE5, 0x8DEF, 0x5F84, 0x4E0D,
            0x5B58, 0x5728, 0x3002]))
      | Member InvalidObjectName \<Rightarrow> Inr (Some (''Git '' @ utf8 [0x4ED3, 0x5E93, 0x4E2D,
            0x627E, 0x4E0D, 0x5230, 0x8BE5, 0x5BF9, 0x8C61, 0x3002]))
      | Member OutsideRepository \<Rightarrow> Inr (Some (utf8 [0x8BE5, 0x8DEF, 0x5F84, 0x5728,
            0x4ED3, 0x5E93, 0x4E2D, 0x65E0, 0x6548, 0x3002]))
      | Member LockFileAlreadyExists \<Rightarrow> Inr (Some (utf8 [0x4ED3, 0x5E93, 0x4E2D, 0x5DF2,
            0x5B58, 0x5728, 0x9501, 0x6587, 0x4EF6, 0xFF0C, 0x8BE5, 0x64CD, 0x4F5C, 0x88AB,
            0x963B, 0x6B62, 0x3002]))
      | Member NoMergeToAbort \<Rightarrow> Inr (Some (utf8 [0x5F53, 0x524D, 0x6CA1, 0x6709,
            0x5408, 0x5E76, 0x64CD, 0x4F5C, 0xFF0C, 0x4E0D, 0x9700, 0x8981, 0x505C, 0x6B62,
            0x3002]))
      | Member NoExistingRemoteBranch \<Rightarrow> Inr (Some (utf8 [0x8FDC, 0x7A0B, 0x5206,
            0x652F, 0x4E0D, 0x5B58, 0x5728, 0x3002]))
      | Member LocalChangesOverwritten \<Rightarrow> Inr (Some (utf8 [0x5F53, 0x524D, 0x6709,
            0x672A, 0x63D0, 0x4EA4, 0x7684, 0x6587, 0x4EF6, 0x6539, 0x52A8, 0xFF0C, 0x5982,
            0x679C, 0x5207, 0x6362, 0x5206, 0x652F, 0x4F1A, 0x88AB, 0x8986, 0x76D6, 0x5BFC,
            0x81F4, 0x4E22, 0x5931, 0xFF0C, 0x56E0, 0x6B64, 0x8BF7, 0x5148, 0x63D0, 0x4EA4,
            0x6216, 0x6682, 0x5B58, 0x8FD9, 0x4E9B, 0x6539, 0x52A8, 0x3002]))
      | Member UnresolvedConflicts \<Rightarrow> Inr (Some (utf8 [0x5F53, 0x524D, 0x4ECD, 0x6709,
            0x51B2, 0x7A81, 0x672A, 0x89E3, 0x51B3, 0x3002]))
      | Member ConfigLockFileAlreadyExists \<Rightarrow> Inr None
      | Member RemoteAlreadyExists \<Rightarrow> Inr None
      | Member TagAlreadyExists \<Rightarrow> Inr (Some (utf8 [0x540C, 0x540D, 0x6807, 0x7B7E,
            0x5DF2, 0x5B58, 0x5728, 0x3002]))
      | Member MergeWithLocalChanges \<Rightarrow> Inr None
      | Member RebaseWithLocalChanges \<Rightarrow> Inr None
      | Member GPGFailedToSignData \<Rightarrow> Inr None
      | Member ConflictModifyDeletedInBranch \<Rightarrow> Inr None
      | Member MergeCommitNoMainlineOption \<Rightarrow> Inr None
      | Member UnsafeDirectory \<Rightarrow> Inr None
      | Member PathExistsButNotInRef \<Rightarrow> Inr None
      | _ \<Rightarrow> assertNever (utf8 [0x672A, 0x77E5, 0x9519, 0x8BEF, 0xFF1A] @ error_value_toString d error)))"

subsection \<open>GitError\<close>

record GitError =
  message :: string
  name :: string
  result :: IGitResult
  args :: "string list"
  isRawMessage :: bool

text \<open>The truthiness test \<open>if (result.gitErrorDescription)\<close> on a \<open>string | null\<close>.\<close>

definition truthy :: "string option \<Rightarrow> bool" where
  "truthy v = (case v of None \<Rightarrow> False | Some s \<Rightarrow> s \<noteq> [])"

definition new_GitError :: "deps \<Rightarrow> IGitResult \<Rightarrow> string list \<Rightarrow> string \<Rightarrow> GitError" where
  "new_GitError d result' args' terminalOutput =
    (let (message', rawMessage) =
       (if truthy (gitErrorDescription result') then (the (gitErrorDescription result'), False)
        else if 0 < length terminalOutput then (terminalOutput, True)
        else if 0 < captured_length (stderr result') then (coerceToString d (stderr result'), True)
        else if 0 < captured_length (stdout result') then (coerceToString d (stdout result'), True)
        else (''Unknown error (exit code '' @ number_toString (exitCode result') @ '')'', False))
     in \<lparr>message = message', name = ''GitError'', result = result', args = args',
          isRawMessage = rawMessage\<rparr>)"

text \<open>
  What \<open>git\<close> throws: a \<open>GitError\<close>, a plain \<open>Error\<close> with a message, or an exception
  of \<open>exec\<close> (passed on, or an \<open>ExecError\<close> built anew).
\<close>

datatype thrown = GitErrorThrown GitError | ErrorThrown string | ExecThrown exec_exception

definition isConfigFileLockError :: "thrown \<Rightarrow> bool" where
  "isConfigFileLockError error =
     (case error of
        GitErrorThrown e \<Rightarrow> gitError (result e) = Some ConfigLockFileAlreadyExists
      | _ \<Rightarrow> False)"

subsection \<open>Running git\<close>

text \<open>Object spread, one property at a time: a present property of the right object wins.\<close>

definition spread_property :: "'a optional \<Rightarrow> 'a optional \<Rightarrow> 'a optional" where
  "spread_property lower upper = (case upper of Absent \<Rightarrow> lower | _ \<Rightarrow> upper)"

definition spread :: "IGitExecutionOptions \<Rightarrow> IGitExecutionOptions option \<Rightarrow> IGitExecutionOptions" where
  "spread lower options =
     (case options of
        None \<Rightarrow> lower
      | Some upper \<Rightarrow>
          \<lparr>successExitCodes = spread_property (successExitCodes lower) (successExitCodes upper),
           expectedErrors = spread_property (expectedErrors lower) (expectedErrors upper),
           trackLFSProgress = spread_property (trackLFSProgress lower) (trackLFSProgress upper),
           isBackgroundTask = spread_property (isBackgroundTask lower) (isBackgroundTask upper),
           env = spread_property (env lower) (env upper),
           encoding = spread_property (encoding lower) (encoding upper),
           maxBuffer = spread_property (maxBuffer lower) (maxBuffer upper)\<rparr>)"

definition defaultOptions :: "deps \<Rightarrow> IGitExecutionOptions option \<Rightarrow> IGitExecutionOptions" where
  "defaultOptions d options =
     \<lparr>successExitCodes = Value {0},
      expectedErrors = Value {},
      trackLFSProgress = Absent,
      isBackgroundTask = Absent,
      env = Absent,
      encoding = Absent,
      maxBuffer =
        Value (if (case options of Some opt \<Rightarrow> encoding opt = Value buffer | None \<Rightarrow> False)
               then \<infinity> else enat (kStringMaxLength d))\<rparr>"

text \<open>
  Modelled from the spec: \<open>merge\<close> of \<open>lib/merge\<close>, which is not among the sources. The
  spec has the resolved variables "merged over caller-supplied ones": the result is a copy
  of the first object (empty when there is none) in which every property of the second
  is set.
\<close>

definition merge :: "env optional \<Rightarrow> env \<Rightarrow> env" where
  "merge obj subset' = (case obj of Value e \<Rightarrow> e | _ \<Rightarrow> Map.empty) ++ subset'"

text \<open>
  Modelled from the spec: \<open>withTrampolineEnv\<close> of \<open>lib/trampoline\<close>, which is not among
  the sources. By the spec it "supplies merged environment for the duration of body": it
  calls the body once, with the environment resolved from the working directory, the
  background flag and the caller's environment (\<open>trampolineEnv\<close>), and returns what the
  body returns.
\<close>

definition withTrampolineEnv ::
  "deps \<Rightarrow> (env \<Rightarrow> 'a) \<Rightarrow> string \<Rightarrow> bool \<Rightarrow> env option \<Rightarrow> 'a" where
  "withTrampolineEnv d fn path' isBackgroundTask' customEnv =
     fn (trampolineEnv d path' isBackgroundTask' customEnv)"

text \<open>\<open>options?.isBackgroundTask ?? false\<close> and \<open>options?.env\<close>.\<close>

definition options_isBackgroundTask :: "IGitExecutionOptions option \<Rightarrow> bool" where
  "options_isBackgroundTask options =
     (case options of
        Some opt \<Rightarrow> (case isBackgroundTask opt of Value b \<Rightarrow> b | _ \<Rightarrow> False)
      | None \<Rightarrow> False)"

definition options_env :: "IGitExecutionOptions option \<Rightarrow> env option" where
  "options_env options =
     (case options of
        Some opt \<Rightarrow> (case env opt of Value e \<Rightarrow> Some e | _ \<Rightarrow> None)
      | None \<Rightarrow> None)"

text \<open>
  The first half of \<open>git\<close>: the options object handed to \<open>exec\<close>, for the environment
  \<open>env'\<close> that \<open>withTrampolineEnv\<close> passes to the body.
\<close>

definition git_opts ::
  "deps \<Rightarrow> IGitExecutionOptions option \<Rightarrow> env \<Rightarrow> IGitExecutionOptions" where
  "git_opts d options env' =
     (let opts = spread (defaultOptions d options) options;
          combinedEnv = merge (env opts) env'
      in opts\<lparr>env := Value ([''TERM'' \<mapsto> Some ''dumb''] ++ combinedEnv)\<rparr>)"

text \<open>
  The classification of a result: \<open>parseError\<close> on stderr and, when that gives null,
  on stdout.
\<close>

definition classify :: "deps \<Rightarrow> 'a DugiteResult_scheme \<Rightarrow> DugiteError option" where
  "classify d result' =
     (case parseError d (coerceToString d (stderr result')) of
        None \<Rightarrow> parseError d (coerceToString d (stdout result'))
      | Some e \<Rightarrow> Some e)"

text \<open>
  The second half: \<open>exec\<close> runs, its exceptions are translated, and the result is
  classified and either returned (\<open>Inr\<close>) or thrown as a \<open>GitError\<close> (\<open>Inl\<close>). The
  call of \<open>log.error\<close> before the throw only writes to the log and is left out, as is
  \<open>GitPerf.measure\<close>, which only times the call.
\<close>

definition git ::
  "deps \<Rightarrow> string list \<Rightarrow> string \<Rightarrow> string \<Rightarrow> IGitExecutionOptions option \<Rightarrow>
     thrown + IGitResult" where
  "git d args' path' name' options =
    withTrampolineEnv d
      (\<lambda>env'.
        let opts = git_opts d options env';
            run = exec d args' path' opts;
            terminalOutput = terminal run
        in case outcome run of
          Inl err \<Rightarrow>
            (case err of
               ErrnoException code \<Rightarrow>
                 Inl (ErrorThrown (''Failed to execute '' @ name' @ '': '' @ code))
             | MaxBufferExceeded msg out' err' \<Rightarrow>
                 Inl (ExecThrown (MaxBufferExceeded (msg @ '' for '' @ name') out' err'))
             | OtherException x \<Rightarrow> Inl (ExecThrown err))
        | Inr result' \<Rightarrow>
            (let exitCode' = exitCode result';
                 acceptableExitCode =
                   (case successExitCodes opts of Value s \<Rightarrow> exitCode' \<in> s | _ \<Rightarrow> False);
                 gitError' = (if \<not> acceptableExitCode then classify d result' else None)
             in case (case gitError' of
                        Some e \<Rightarrow>
                          getDescriptionForError d (Member e) (coerceToString d (stderr result'))
                      | None \<Rightarrow> Inr None) of
                  Inl msg \<Rightarrow> Inl (ErrorThrown msg)
                | Inr gitErrorDescription' \<Rightarrow>
                    (let gitResult =
                           \<lparr>exitCode = exitCode result', stdout = stdout result',
                            stderr = stderr result', gitError = gitError',
                            gitErrorDescription = gitErrorDescription', path = path'\<rparr>;
                         acceptableError =
                           (case gitError' of
                              Some e \<Rightarrow>
                                (case expectedErrors opts of Value s \<Rightarrow> e \<in> s | _ \<Rightarrow> True)
                            | None \<Rightarrow> True)
                     in if (gitError' \<noteq> None \<and> acceptableError) \<or> acceptableExitCode
                        then Inr gitResult
                        else Inl (GitErrorThrown (new_GitError d gitResult args' terminalOutput)))))
      path' (options_isBackgroundTask options) (options_env options)"

text \<open>
  For the statements below: the options \<open>git\<close> hands to \<open>exec\<close> in a call, and the run
  of \<open>exec\<close> it gets back.
\<close>

definition git_options :: "deps \<Rightarrow> string \<Rightarrow> IGitExecutionOptions option \<Rightarrow> IGitExecutionOptions" where
  "git_options d path' options =
     git_opts d options (trampolineEnv d path' (options_isBackgroundTask options) (options_env options))"

definition git_run :: "deps \<Rightarrow> string list \<Rightarrow> string \<Rightarrow> IGitExecutionOptions option \<Rightarrow> exec_run" where
  "git_run d args' path' options = exec d args' path' (git_options d path' options)"

subsection \<open>The path of the config lock file\<close>

text \<open>
  What a regular expression sees of a string: its characters, with each line terminator
  of JavaScript (LF, CR, and U+2028 and U+2029, three bytes each in UTF-8) as one item.
\<close>

datatype regex_char = Ch char | LineTerminator

fun regex_input :: "string \<Rightarrow> regex_char list" where
  "regex_input (c1 # c2 # c3 # cs) =
     (if c1 = CHR 0xE2 \<and> c2 = CHR 0x80 \<and> (c3 = CHR 0xA8 \<or> c3 = CHR 0xA9)
      then LineTerminator # regex_input cs
      else (if c1 = CHR 0x0A \<or> c1 = CHR 0x0D then LineTerminator else Ch c1) #
           regex_input (c2 # c3 # cs))"
| "regex_input (c # cs) =
     (if c = CHR 0x0A \<or> c = CHR 0x0D then LineTerminator else Ch c) # regex_input cs"
| "regex_input [] = []"

text \<open>
  \<open>lockFilePathRe = /^error: could not lock config file (.+?): File exists$/m\<close>, run
  by \<open>exec\<close>. The match starts at the first position, from the left, that is at the start
  of a line (\<open>^\<close> with the flag \<open>m\<close>) and where the pattern matches: the literal prefix,
  then the shortest non-empty run of characters that are no line terminators (\<open>(.+?)\<close>)
  after which the literal suffix stands at the end of a line (\<open>$\<close>). \<open>exec_from\<close> walks
  the positions; its flag tells whether the position is at the start of a line. The
  result is the capture group, or \<open>None\<close> for \<open>null\<close>.
\<close>

definition lock_prefix :: string where
  "lock_prefix = ''error: could not lock config file ''"

definition lock_suffix :: string where
  "lock_suffix = '': File exists''"

fun starts_with :: "string \<Rightarrow> regex_char list \<Rightarrow> regex_char list option" where
  "starts_with [] us = Some us"
| "starts_with (c # cs) [] = None"
| "starts_with (c # cs) (u # us) = (if u = Ch c then starts_with cs us else None)"

definition at_line_end :: "regex_char list \<Rightarrow> bool" where
  "at_line_end us = (case us of [] \<Rightarrow> True | u # _ \<Rightarrow> u = LineTerminator)"

fun capture_lazy :: "string \<Rightarrow> regex_char list \<Rightarrow> string option" where
  "capture_lazy cap [] = None"
| "capture_lazy cap (LineTerminator # us) = None"
| "capture_lazy cap (Ch c # us) =
     (case starts_with lock_suffix us of
        Some rest \<Rightarrow>
          if at_line_end rest then Some (cap @ [c]) else capture_lazy (cap @ [c]) us
      | None \<Rightarrow> capture_lazy (cap @ [c]) us)"

definition match_here :: "regex_char list \<Rightarrow> string option" where
  "match_here us =
     (case starts_with lock_prefix us of
        None \<Rightarrow> None
      | Some rest \<Rightarrow> capture_lazy [] rest)"

fun exec_from :: "bool \<Rightarrow> regex_char list \<Rightarrow> string option" where
  "exec_from bol [] = None"
| "exec_from bol (u # us) =
     (case (if bol then match_here (u # us) else None) of
        Some cap \<Rightarrow> Some cap
      | None \<Rightarrow> exec_from (u = LineTerminator) us)"

definition lockFilePathRe_exec :: "string \<Rightarrow> string option" where
  "lockFilePathRe_exec s = exec_from True (regex_input s)"

text \<open>\<open>String.prototype.replace\<close> with a string pattern: the first occurrence only.\<close>

fun replace_first :: "char \<Rightarrow> string \<Rightarrow> string \<Rightarrow> string" where
  "replace_first c r [] = []"
| "replace_first c r (x # xs) = (if x = c then r @ xs else x # replace_first c r xs)"

definition parseConfigLockFilePathFromError :: "deps \<Rightarrow> IGitResult \<Rightarrow> string option" where
  "parseConfigLockFilePathFromError d result' =
     (case lockFilePathRe_exec (coerceToString d (stderr result')) of
        None \<Rightarrow> None
      | Some match1 \<Rightarrow>
          (let normalized =
                 (if WIN32 d then replace_first CHR ''/'' [CHR 0x5C] match1 else match1)
           in Some (resolve d (path result') (normalized @ ''.lock''))))"

text \<open>
  \<open>Path.resolve\<close> of Node.js on a POSIX system, for two arguments and the current
  directory \<open>cwd\<close> of the process: the arguments are taken from the right until one is
  absolute, then the segments \<open>.\<close> and \<open>..\<close> and the empty ones are resolved.
\<close>

fun split_on :: "char \<Rightarrow> string \<Rightarrow> string list" where
  "split_on sep [] = [[]]"
| "split_on sep (c # cs) =
     (if c = sep then [] # split_on sep cs
      else (case split_on sep cs of l # ls \<Rightarrow> (c # l) # ls | [] \<Rightarrow> [[c]]))"

fun join_with :: "string \<Rightarrow> string list \<Rightarrow> string" where
  "join_with sep [] = []"
| "join_with sep [x] = x"
| "join_with sep (x # y # ys) = x @ sep @ join_with sep (y # ys)"

fun normalizeString :: "bool \<Rightarrow> string list \<Rightarrow> string list \<Rightarrow> string list" where
  "normalizeString allowAboveRoot res [] = res"
| "normalizeString allowAboveRoot res (seg # segs) =
     (if seg = [] \<or> seg = ''.'' then normalizeString allowAboveRoot res segs
      else if seg = ''..'' then
        (if res \<noteq> [] \<and> last res \<noteq> ''..'' then normalizeString allowAboveRoot (butlast res) segs
         else if allowAboveRoot then normalizeString allowAboveRoot (res @ [''..'']) segs
         else normalizeString allowAboveRoot res segs)
      else normalizeString allowAboveRoot (res @ [seg]) segs)"

fun resolve_join :: "string list \<Rightarrow> string \<Rightarrow> string \<times> bool" where
  "resolve_join [] resolvedPath = (resolvedPath, False)"
| "resolve_join (p # ps) resolvedPath =
     (if p = [] then resolve_join ps resolvedPath
      else if hd p = CHR ''/'' then (p @ ''/'' @ resolvedPath, True)
      else resolve_join ps (p @ ''/'' @ resolvedPath))"

definition posix_resolve :: "string \<Rightarrow> string \<Rightarrow> string \<Rightarrow> string" where
  "posix_resolve cwd from to =
     (let (resolvedPath, resolvedAbsolute) = resolve_join [to, from, cwd] [];
          normalized =
            join_with ''/'' (normalizeString (\<not> resolvedAbsolute) [] (split_on CHR ''/'' resolvedPath))
      in if resolvedAbsolute then ''/'' @ normalized
         else if normalized \<noteq> [] then normalized else ''.'')"

text \<open>
  The lines of a string, as the flag \<open>m\<close> sees them, and the lines the pattern is
  about: \<open>lock_line p l\<close> says that \<open>l\<close> is the line
  \<open>error: could not lock config file <path>: File exists\<close> for the non-empty path \<open>p\<close>.
\<close>

fun split_lines :: "regex_char list \<Rightarrow> string list" where
  "split_lines [] = [[]]"
| "split_lines (LineTerminator # us) = [] # split_lines us"
| "split_lines (Ch c # us) =
     (case split_lines us of l # ls \<Rightarrow> (c # l) # ls | [] \<Rightarrow> [[c]])"

definition js_lines :: "string \<Rightarrow> string list" where
  "js_lines s = split_lines (regex_input s)"

definition lock_line :: "string \<Rightarrow> string \<Rightarrow> bool" where
  "lock_line p l \<longleftrightarrow> p \<noteq> [] \<and> l = lock_prefix @ p @ lock_suffix"

text \<open>The same match, read line by line; used to relate \<open>exec\<close> to the lines.\<close>

fun first_line :: "regex_char list \<Rightarrow> string" where
  "first_line [] = []"
| "first_line (LineTerminator # us) = []"
| "first_line (Ch c # us) = c # first_line us"

fun after_first_line :: "regex_char list \<Rightarrow> regex_char list" where
  "after_first_line [] = []"
| "after_first_line (LineTerminator # us) = LineTerminator # us"
| "after_first_line (Ch c # us) = after_first_line us"

fun line_capture :: "string \<Rightarrow> string \<Rightarrow> string option" where
  "line_capture cap [] = None"
| "line_capture cap (c # l) = (if l = lock_suffix then Some (cap @ [c]) else line_capture (cap @ [c]) l)"

definition lock_line_path :: "string \<Rightarrow> string option" where
  "lock_line_path l =
     (if take (length lock_prefix) l = lock_prefix
      then line_capture [] (drop (length lock_prefix) l) else None)"

fun first_match :: "string list \<Rightarrow> string option" where
  "first_match [] = None"
| "first_match (l # ls) = (case lock_line_path l of Some p \<Rightarrow> Some p | None \<Rightarrow> first_match ls)"

text \<open>
  Modelled from the spec: the classifier, dugite's \<open>parseError\<close>, whose pattern table is
  not among the sources. By the spec it matches the text "against a fixed table of
  recognized Git failure patterns", "first-match-wins over a fixed priority-ordered
  table", and "if no entry matches, returns null"; one entry is "a line matching
  \<open>error: could not lock config file (.+): File exists\<close>", which "maps to config lock
  file already exists". A pattern is a predicate on the text.
\<close>

fun parseError_model :: "((string \<Rightarrow> bool) \<times> DugiteError) list \<Rightarrow> string \<Rightarrow> DugiteError option" where
  "parseError_model [] text' = None"
| "parseError_model ((pattern, code) # table) text' =
     (if pattern text' then Some code else parseError_model table text')"

definition config_lock_pattern :: "string \<Rightarrow> bool" where
  "config_lock_pattern text' \<longleftrightarrow>
     (\<exists>l a p b. l \<in> set (js_lines text') \<and> p \<noteq> [] \<and>
        l = a @ lock_prefix @ p @ lock_suffix @ b)"

subsection \<open>Concrete runs\<close>

text \<open>
  A world in which \<open>exec\<close> always gives the run \<open>run\<close>, the classifier is
  \<open>classifier\<close> and the trampoline resolves the environment \<open>ambient\<close>. The runs
  below are used to evaluate \<open>git\<close> at concrete inputs.
\<close>

definition scenario :: "exec_run \<Rightarrow> (string \<Rightarrow> DugiteError option) \<Rightarrow> env \<Rightarrow> deps" where
  "scenario run classifier ambient =
     \<lparr>DARWIN = False, WIN32 = False, kStringMaxLength = 536870888,
      toString = (\<lambda>b. []), enum_number = (\<lambda>e. 0),
      parseError = classifier, parseBadConfigValueErrorInfo = (\<lambda>s. None),
      trampolineEnv = (\<lambda>p b e. ambient), exec = (\<lambda>a p opts. run),
      resolve = posix_resolve ''/''\<rparr>"

definition no_options :: IGitExecutionOptions where
  "no_options =
     \<lparr>successExitCodes = Absent, expectedErrors = Absent, trackLFSProgress = Absent,
      isBackgroundTask = Absent, env = Absent, encoding = Absent, maxBuffer = Absent\<rparr>"

definition run_status_ok :: exec_run where
  "run_status_ok =
     \<lparr>outcome = Inr \<lparr>exitCode = 0, stdout = Str ''On branch main'', stderr = Str []\<rparr>,
      terminal = ''On branch main''\<rparr>"

definition run_remote_exists :: exec_run where
  "run_remote_exists =
     \<lparr>outcome = Inr \<lparr>exitCode = 3, stdout = Str [],
                     stderr = Str ''error: remote origin already exists.''\<rparr>,
      terminal = ''error: remote origin already exists.''\<rparr>"

definition classify_remote_exists :: "string \<Rightarrow> DugiteError option" where
  "classify_remote_exists s =
     (if s = ''error: remote origin already exists.'' then Some RemoteAlreadyExists else None)"

definition run_unrecognized :: exec_run where
  "run_unrecognized =
     \<lparr>outcome = Inr \<lparr>exitCode = 128, stdout = Str (''Preparing worktree'' @ [CHR 0x0A]),
                     stderr = Str (''fatal: something unexpected'' @ [CHR 0x0A])\<rparr>,
      terminal = ''Preparing worktree'' @ [CHR 0x0A] @ ''fatal: something unexpected'' @ [CHR 0x0A]\<rparr>"

definition run_unrecognized_silent :: exec_run where
  "run_unrecognized_silent =
     \<lparr>outcome = Inr \<lparr>exitCode = 128, stdout = Str [],
                     stderr = Str ''fatal: something unexpected''\<rparr>,
      terminal = []\<rparr>"

definition option_env_TERM :: IGitExecutionOptions where
  "option_env_TERM = no_options\<lparr>env := Value [''TERM'' \<mapsto> Some ''xterm-256color'']\<rparr>"

definition result_of :: "int \<Rightarrow> string \<Rightarrow> string \<Rightarrow> string option \<Rightarrow> IGitResult" where
  "result_of code out' err' desc =
     \<lparr>exitCode = code, stdout = Str out', stderr = Str err', gitError = None,
      gitErrorDescription = desc, path = ''/r''\<rparr>"

definition result_config_lock :: IGitResult where
  "result_config_lock =
     \<lparr>exitCode = 255, stdout = Str [],
      stderr = Str ''error: could not lock config file /r/.git/config: File exists'',
      gitError = Some ConfigLockFileAlreadyExists, gitErrorDescription = None,
      path = ''/r''\<rparr>"

definition result_two_config_locks :: IGitResult where
  "result_two_config_locks =
     \<lparr>exitCode = 255, stdout = Str [],
      stderr = Str (''error: could not lock config file /a/.git/config: File exists'' @ [CHR 0x0A] @
                    ''error: could not lock config file /r/.git/config: File exists''),
      gitError = Some ConfigLockFileAlreadyExists, gitErrorDescription = None,
      path = ''/r''\<rparr>"

definition result_not_a_repository :: IGitResult where
  "result_not_a_repository =
     \<lparr>exitCode = 128, stdout = Str [],
      stderr = Str ''fatal: not a git repository (or any of the parent directories): .git'',
      gitError = Some NotAGitRepository, gitErrorDescription = None, path = ''/r''\<rparr>"

definition fatal_pattern :: "string \<Rightarrow> bool" where
  "fatal_pattern text' \<longleftrightarrow> take 6 text' = ''fatal:''"

section \<open>Properties\<close>

subsection \<open>Unfolding \<open>git\<close>\<close>

lemma getDescriptionForError_Member:
  "(\<And>n. e \<noteq> Unnamed n) \<Longrightarrow> \<exists>desc. getDescriptionForError d (Member e) stderr' = Inr desc"
  by (cases e) (auto simp add: getDescriptionForError_def isAuthFailureError_def split: option.split)

lemma getDescriptionForError_default:
  "getDescriptionForError d (Member (Unnamed n)) stderr' =
     Inl (utf8 [0x672A, 0x77E5, 0x9519, 0x8BEF, 0xFF1A] @ number_toString (enum_number d (Unnamed n)))"
  "getDescriptionForError d (Outside i) stderr' =
     Inl (utf8 [0x672A, 0x77E5, 0x9519, 0x8BEF, 0xFF1A] @ number_toString i)"
  by (simp_all add: getDescriptionForError_def isAuthFailureError_def assertNever_def
        error_value_toString_def)

lemma git_unfold:
  "git d args' path' name' options =
    (let opts = git_options d path' options;
         run = git_run d args' path' options
     in case outcome run of
          Inl err \<Rightarrow>
            (case err of
               ErrnoException code \<Rightarrow>
                 Inl (ErrorThrown (''Failed to execute '' @ name' @ '': '' @ code))
             | MaxBufferExceeded msg out' err' \<Rightarrow>
                 Inl (ExecThrown (MaxBufferExceeded (msg @ '' for '' @ name') out' err'))
             | OtherException x \<Rightarrow> Inl (ExecThrown err))
        | Inr res \<Rightarrow>
            (let acceptableExitCode =
                   (case successExitCodes opts of Value s \<Rightarrow> exitCode res \<in> s | _ \<Rightarrow> False);
                 gitError' = (if \<not> acceptableExitCode then classify d res else None)
             in case (case gitError' of
                        Some e \<Rightarrow> getDescriptionForError d (Member e) (coerceToString d (stderr res))
                      | None \<Rightarrow> Inr None) of
                  Inl msg \<Rightarrow> Inl (ErrorThrown msg)
                | Inr desc \<Rightarrow>
                    (let gitResult =
                           \<lparr>exitCode = exitCode res, stdout = stdout res,
                            stderr = stderr res, gitError = gitError',
                            gitErrorDescription = desc, path = path'\<rparr>;
                         acceptableError =
                           (case gitError' of
                              Some e \<Rightarrow>
                                (case expectedErrors opts of Value s \<Rightarrow> e \<in> s | _ \<Rightarrow> True)
                            | None \<Rightarrow> True)
                     in if (gitError' \<noteq> None \<and> acceptableError) \<or> acceptableExitCode
                        then Inr gitResult
                        else Inl (GitErrorThrown (new_GitError d gitResult args' (terminal run))))))"
  by (simp only: git_def withTrampolineEnv_def git_run_def git_options_def Let_def)

lemma git_options_parseError [simp]:
  "git_options (d\<lparr>parseError := pe\<rparr>) path' options = git_options d path' options"
  by (simp add: git_options_def git_opts_def defaultOptions_def)

lemma git_run_parseError [simp]:
  "git_run (d\<lparr>parseError := pe\<rparr>) args' path' options = git_run d args' path' options"
  by (simp add: git_run_def)

lemma git_run_scenario [simp]: "git_run (scenario run c a) args' path' options = run"
  by (simp add: git_run_def scenario_def)

lemma git_options_fields:
  "successExitCodes (git_options d path' options) =
     (case options of None \<Rightarrow> Value {0}
      | Some opt \<Rightarrow> spread_property (Value {0}) (successExitCodes opt))"
  "expectedErrors (git_options d path' options) =
     (case options of None \<Rightarrow> Value {}
      | Some opt \<Rightarrow> spread_property (Value {}) (expectedErrors opt))"
  by (simp_all add: git_options_def git_opts_def Let_def spread_def defaultOptions_def
        split: option.split)

subsection \<open>The return policy\<close>

text \<open>
  Where the merged options hold an expected-error set and the classified code is one the
  source names, \<open>git\<close> returns a result exactly when the exit code is in the success set
  or the result is classified with a code of the expected-error set; otherwise it throws
  the \<open>GitError\<close> built from the result (with the classified code and its description),
  the argument vector and the terminal output.
\<close>

lemma git_return_policy:
  assumes run: "outcome (git_run d args' path' options) = Inr res"
      and expected: "expectedErrors (git_options d path' options) = Value E"
      and named: "\<And>n. classify d res \<noteq> Some (Unnamed n)"
  shows
    "((\<exists>r. git d args' path' name' options = Inr r) \<longleftrightarrow>
        (\<exists>S. successExitCodes (git_options d path' options) = Value S \<and> exitCode res \<in> S) \<or>
        (\<exists>e. classify d res = Some e \<and> e \<in> E)) \<and>
     ((\<forall>r. git d args' path' name' options \<noteq> Inr r) \<longrightarrow>
        (\<exists>desc.
           (case classify d res of
              None \<Rightarrow> Inr None
            | Some e \<Rightarrow> getDescriptionForError d (Member e) (coerceToString d (stderr res))) =
             Inr desc \<and>
           git d args' path' name' options =
             Inl (GitErrorThrown (new_GitError d
               \<lparr>exitCode = exitCode res, stdout = stdout res, stderr = stderr res,
                gitError = classify d res, gitErrorDescription = desc, path = path'\<rparr> args'
               (terminal (git_run d args' path' options))))))"
proof -
  define ok where
    "ok = (case successExitCodes (git_options d path' options) of
             Value s \<Rightarrow> exitCode res \<in> s | _ \<Rightarrow> False)"
  have ok_iff:
    "ok \<longleftrightarrow> (\<exists>S. successExitCodes (git_options d path' options) = Value S \<and> exitCode res \<in> S)"
    by (cases "successExitCodes (git_options d path' options)") (simp_all add: ok_def)
  show ?thesis
  proof (cases ok)
    case True
    then have "\<exists>r. git d args' path' name' options = Inr r"
      using run by (simp add: git_unfold ok_def)
    then show ?thesis using True ok_iff by auto
  next
    case False
    note not_ok = False
    show ?thesis
    proof (cases "classify d res")
      case None
      have "git d args' path' name' options =
              Inl (GitErrorThrown (new_GitError d
                \<lparr>exitCode = exitCode res, stdout = stdout res, stderr = stderr res,
                 gitError = None, gitErrorDescription = None, path = path'\<rparr> args'
                (terminal (git_run d args' path' options))))"
        using run not_ok None by (simp add: git_unfold ok_def)
      then show ?thesis
        using not_ok ok_iff None by simp
    next
      case (Some e)
      have "\<And>n. e \<noteq> Unnamed n"
        using named Some by auto
      then obtain desc where desc:
        "getDescriptionForError d (Member e) (coerceToString d (stderr res)) = Inr desc"
        using getDescriptionForError_Member by blast
      show ?thesis
      proof (cases "e \<in> E")
        case True
        then have "\<exists>r. git d args' path' name' options = Inr r"
          using run not_ok Some desc expected by (simp add: git_unfold ok_def)
        then show ?thesis using True Some by auto
      next
        case False
        have "git d args' path' name' options =
                Inl (GitErrorThrown (new_GitError d
                  \<lparr>exitCode = exitCode res, stdout = stdout res, stderr = stderr res,
                   gitError = Some e, gitErrorDescription = desc, path = path'\<rparr> args'
                  (terminal (git_run d args' path' options))))"
          using run not_ok Some desc False expected by (simp add: git_unfold ok_def)
        then show ?thesis
          using not_ok ok_iff Some False desc by simp
      qed
    qed
  qed
qed

text \<open>
  C1. The code at the failing input: the caller's options are
  \<open>{ expectedErrors: undefined }\<close>, the subprocess exits with code 3, which is not in the
  success set \<open>{0}\<close>, and stderr is classified as \<open>RemoteAlreadyExists\<close>. The spread has
  put \<open>undefined\<close> in place of the default empty set, so the merged options hold no
  expected-error set and the code is a member of none; the claim, like the
  documentation of \<open>git\<close>, requires a \<open>GitError\<close> to be thrown, and \<open>git\<close> returns the
  result.
\<close>

theorem git_expectedErrors_undefined:
  "git (scenario run_remote_exists classify_remote_exists Map.empty)
       [''remote'', ''add'', ''origin'', ''https://example.com/r.git''] ''/r'' ''addRemote''
       (Some (no_options\<lparr>expectedErrors := Undefined\<rparr>)) =
     Inr \<lparr>exitCode = 3, stdout = Str [], stderr = Str ''error: remote origin already exists.'',
          gitError = Some RemoteAlreadyExists, gitErrorDescription = None, path = ''/r''\<rparr> \<and>
   successExitCodes (git_options (scenario run_remote_exists classify_remote_exists Map.empty) ''/r''
       (Some (no_options\<lparr>expectedErrors := Undefined\<rparr>))) = Value {0} \<and>
   (3::int) \<notin> {0} \<and>
   expectedErrors (git_options (scenario run_remote_exists classify_remote_exists Map.empty) ''/r''
       (Some (no_options\<lparr>expectedErrors := Undefined\<rparr>))) = Undefined"
proof -
  let ?d = "scenario run_remote_exists classify_remote_exists Map.empty"
  let ?res = "\<lparr>exitCode = 3, stdout = Str [], stderr = Str ''error: remote origin already exists.''\<rparr>"
  have run: "\<And>a options. outcome (git_run ?d a ''/r'' options) = Inr ?res"
    by (simp add: run_remote_exists_def)
  have cl: "classify ?d ?res = Some RemoteAlreadyExists"
    by (simp add: classify_def classify_remote_exists_def scenario_def coerceToString_def)
  have desc: "\<And>s. getDescriptionForError ?d (Member RemoteAlreadyExists) s = Inr None"
    by (simp add: getDescriptionForError_def isAuthFailureError_def)
  show ?thesis
    using run cl desc
    by (simp add: git_unfold git_options_fields no_options_def spread_property_def)
qed

text \<open>
  C2. When the exit code is in the success set of the merged options, \<open>git\<close> returns
  the result with \<open>gitError\<close> and \<open>gitErrorDescription\<close> null, and it does so whatever
  the classifier is: \<open>parseError\<close> is not consulted.
\<close>

theorem git_success_exit_code:
  assumes "outcome (git_run d args' path' options) = Inr res"
      and "successExitCodes (git_options d path' options) = Value S"
      and "exitCode res \<in> S"
  shows "\<forall>pe. git (d\<lparr>parseError := pe\<rparr>) args' path' name' options =
           Inr \<lparr>exitCode = exitCode res, stdout = stdout res, stderr = stderr res,
                gitError = None, gitErrorDescription = None, path = path'\<rparr>"
  using assms by (simp add: git_unfold)

theorem git_success_exit_code_witness:
  "outcome (git_run (scenario run_status_ok (\<lambda>s. Some NotAGitRepository) Map.empty)
      [''status''] ''/r'' None) =
     Inr \<lparr>exitCode = 0, stdout = Str ''On branch main'', stderr = Str []\<rparr> \<and>
   successExitCodes (git_options (scenario run_status_ok (\<lambda>s. Some NotAGitRepository) Map.empty)
      ''/r'' None) = Value {0} \<and>
   (0::int) \<in> {0} \<and>
   (\<forall>pe. git (scenario run_status_ok (\<lambda>s. Some NotAGitRepository) Map.empty\<lparr>parseError := pe\<rparr>)
      [''status''] ''/r'' ''getStatus'' None =
      Inr \<lparr>exitCode = 0, stdout = Str ''On branch main'', stderr = Str [],
           gitError = None, gitErrorDescription = None, path = ''/r''\<rparr>)"
  using git_success_exit_code [of "scenario run_status_ok (\<lambda>s. Some NotAGitRepository) Map.empty"
      "[''status'']" "''/r''" None
      "\<lparr>exitCode = 0, stdout = Str ''On branch main'', stderr = Str []\<rparr>" "{0}" "''getStatus''"]
  by (simp add: run_status_ok_def git_options_fields)

subsection \<open>The message of a GitError\<close>

text \<open>
  C3, as amended. When the exit code is outside the success set and neither stderr nor
  stdout is classified, \<open>git\<close> throws a \<open>GitError\<close> whose message is the terminal
  output when that is not empty, else stderr, else stdout, else the text
  \<open>Unknown error (exit code N)\<close> for the exit code \<open>N\<close>.
\<close>

theorem git_unclassified_message:
  assumes "outcome (git_run d args' path' options) = Inr res"
      and "\<forall>S. successExitCodes (git_options d path' options) = Value S \<longrightarrow> exitCode res \<notin> S"
      and "classify d res = None"
  shows "\<exists>e. git d args' path' name' options = Inl (GitErrorThrown e) \<and>
           message e =
             (if terminal (git_run d args' path' options) \<noteq> [] then
                terminal (git_run d args' path' options)
              else if 0 < captured_length (stderr res) then coerceToString d (stderr res)
              else if 0 < captured_length (stdout res) then coerceToString d (stdout res)
              else ''Unknown error (exit code '' @ number_toString (exitCode res) @ '')'')"
proof -
  have exit: "(case successExitCodes (git_options d path' options) of
                 Value s \<Rightarrow> exitCode res \<in> s | _ \<Rightarrow> False) = False"
    using assms(2) by (cases "successExitCodes (git_options d path' options)") simp_all
  show ?thesis
    using assms(1,3) exit by (simp add: git_unfold new_GitError_def truthy_def)
qed

theorem git_unclassified_message_witness:
  "outcome (git_run (scenario run_unrecognized_silent (\<lambda>s. None) Map.empty) [''fetch''] ''/r'' None) =
     Inr \<lparr>exitCode = 128, stdout = Str [], stderr = Str ''fatal: something unexpected''\<rparr> \<and>
   successExitCodes (git_options (scenario run_unrecognized_silent (\<lambda>s. None) Map.empty)
     ''/r'' None) = Value {0} \<and>
   (128::int) \<notin> {0} \<and>
   classify (scenario run_unrecognized_silent (\<lambda>s. None) Map.empty)
     \<lparr>exitCode = 128, stdout = Str [], stderr = Str ''fatal: something unexpected''\<rparr> = None \<and>
   (\<exists>e. git (scenario run_unrecognized_silent (\<lambda>s. None) Map.empty) [''fetch''] ''/r'' ''fetch'' None =
          Inl (GitErrorThrown e) \<and>
        message e = ''fatal: something unexpected'')"
proof -
  let ?d = "scenario run_unrecognized_silent (\<lambda>s. None) Map.empty"
  let ?res = "\<lparr>exitCode = 128, stdout = Str [], stderr = Str ''fatal: something unexpected''\<rparr>"
  have run: "outcome (git_run ?d [''fetch''] ''/r'' None) = Inr ?res"
    by (simp add: run_unrecognized_silent_def)
  have exit: "\<forall>S. successExitCodes (git_options ?d ''/r'' None) = Value S \<longrightarrow> exitCode ?res \<notin> S"
    by (simp add: git_options_fields)
  have cl: "classify ?d ?res = None"
    by (simp add: classify_def scenario_def)
  have "\<exists>e. git ?d [''fetch''] ''/r'' ''fetch'' None = Inl (GitErrorThrown e) \<and>
          message e = ''fatal: something unexpected''"
    using git_unclassified_message [OF run exit cl, of "''fetch''"]
    by (simp add: run_unrecognized_silent_def coerceToString_def)
  then show ?thesis using run cl by (simp add: git_options_fields)
qed

text \<open>
  C3 as stated fails: the constructor prefers the terminal output to stderr. A run with
  exit code 128, unclassified, with both stdout and stderr written, throws a \<open>GitError\<close>
  whose message is the combined terminal output, not the stderr text.
\<close>

theorem git_unclassified_message_counterexample:
  "git (scenario run_unrecognized (\<lambda>s. None) Map.empty) [''worktree'', ''add'', ''w'']
       ''/r'' ''addWorktree'' None =
     Inl (GitErrorThrown
       \<lparr>message =
          ''Preparing worktree'' @ [CHR 0x0A] @ ''fatal: something unexpected'' @ [CHR 0x0A],
        name = ''GitError'',
        result = \<lparr>exitCode = 128, stdout = Str (''Preparing worktree'' @ [CHR 0x0A]),
                  stderr = Str (''fatal: something unexpected'' @ [CHR 0x0A]),
                  gitError = None, gitErrorDescription = None, path = ''/r''\<rparr>,
        args = [''worktree'', ''add'', ''w''], isRawMessage = True\<rparr>) \<and>
   ''Preparing worktree'' @ [CHR 0x0A] @ ''fatal: something unexpected'' @ [CHR 0x0A] \<noteq>
     ''fatal: something unexpected'' @ [CHR 0x0A]"
proof -
  let ?d = "scenario run_unrecognized (\<lambda>s. None) Map.empty"
  have cl: "\<And>run res. classify (scenario run (\<lambda>s. None) Map.empty) res = None"
    by (simp add: classify_def scenario_def)
  have run: "\<And>a options. git_run ?d a ''/r'' options = run_unrecognized"
    by simp
  have "git ?d [''worktree'', ''add'', ''w''] ''/r'' ''addWorktree'' None =
          Inl (GitErrorThrown (new_GitError ?d
            \<lparr>exitCode = 128, stdout = Str (''Preparing worktree'' @ [CHR 0x0A]),
             stderr = Str (''fatal: something unexpected'' @ [CHR 0x0A]),
             gitError = None, gitErrorDescription = None, path = ''/r''\<rparr>
            [''worktree'', ''add'', ''w''] (terminal run_unrecognized)))"
    unfolding git_unfold run Let_def
    by (simp add: cl git_options_fields run_unrecognized_def)
  then show ?thesis
    by (simp add: new_GitError_def truthy_def run_unrecognized_def)
qed

text \<open>
  C9. The flag \<open>isRawMessage\<close> of a new \<open>GitError\<close> is false when the message is the
  error description or the \<open>Unknown error (exit code N)\<close> text, and true when the
  message is the terminal output, stderr or stdout; the five cases are exclusive and
  cover every input.
\<close>

theorem new_GitError_isRawMessage:
  "(truthy (gitErrorDescription r) \<longrightarrow>
      message (new_GitError d r a t) = the (gitErrorDescription r) \<and>
      \<not> isRawMessage (new_GitError d r a t)) \<and>
   (\<not> truthy (gitErrorDescription r) \<and> t \<noteq> [] \<longrightarrow>
      message (new_GitError d r a t) = t \<and> isRawMessage (new_GitError d r a t)) \<and>
   (\<not> truthy (gitErrorDescription r) \<and> t = [] \<and> 0 < captured_length (stderr r) \<longrightarrow>
      message (new_GitError d r a t) = coerceToString d (stderr r) \<and>
      isRawMessage (new_GitError d r a t)) \<and>
   (\<not> truthy (gitErrorDescription r) \<and> t = [] \<and> captured_length (stderr r) = 0 \<and>
      0 < captured_length (stdout r) \<longrightarrow>
      message (new_GitError d r a t) = coerceToString d (stdout r) \<and>
      isRawMessage (new_GitError d r a t)) \<and>
   (\<not> truthy (gitErrorDescription r) \<and> t = [] \<and> captured_length (stderr r) = 0 \<and>
      captured_length (stdout r) = 0 \<longrightarrow>
      message (new_GitError d r a t) =
        ''Unknown error (exit code '' @ number_toString (exitCode r) @ '')'' \<and>
      \<not> isRawMessage (new_GitError d r a t))"
  by (simp add: new_GitError_def)

theorem new_GitError_isRawMessage_witness:
  "(message (new_GitError (scenario run_status_ok (\<lambda>s. None) Map.empty) (result_of 1 ''o'' ''e'' (Some ''described'')) [] ''t'') = ''described'' \<and>
    \<not> isRawMessage (new_GitError (scenario run_status_ok (\<lambda>s. None) Map.empty) (result_of 1 ''o'' ''e'' (Some ''described'')) [] ''t'')) \<and>
   (message (new_GitError (scenario run_status_ok (\<lambda>s. None) Map.empty) (result_of 1 ''o'' ''e'' None) [] ''t'') = ''t'' \<and>
    isRawMessage (new_GitError (scenario run_status_ok (\<lambda>s. None) Map.empty) (result_of 1 ''o'' ''e'' None) [] ''t'')) \<and>
   (message (new_GitError (scenario run_status_ok (\<lambda>s. None) Map.empty) (result_of 1 ''o'' ''e'' None) [] []) = ''e'' \<and>
    isRawMessage (new_GitError (scenario run_status_ok (\<lambda>s. None) Map.empty) (result_of 1 ''o'' ''e'' None) [] [])) \<and>
   (message (new_GitError (scenario run_status_ok (\<lambda>s. None) Map.empty) (result_of 1 ''o'' [] None) [] []) = ''o'' \<and>
    isRawMessage (new_GitError (scenario run_status_ok (\<lambda>s. None) Map.empty) (result_of 1 ''o'' [] None) [] [])) \<and>
   (message (new_GitError (scenario run_status_ok (\<lambda>s. None) Map.empty) (result_of 1 [] [] None) [] []) = ''Unknown error (exit code 1)'' \<and>
    \<not> isRawMessage (new_GitError (scenario run_status_ok (\<lambda>s. None) Map.empty) (result_of 1 [] [] None) [] []))"
proof -
  have n: "number_toString 1 = ''1''"
    by code_simp
  show ?thesis
  using new_GitError_isRawMessage [of "result_of 1 ''o'' ''e'' (Some ''described'')" "scenario run_status_ok (\<lambda>s. None) Map.empty" "[]" "''t''"]
    new_GitError_isRawMessage [of "result_of 1 ''o'' ''e'' None" "scenario run_status_ok (\<lambda>s. None) Map.empty" "[]" "''t''"]
    new_GitError_isRawMessage [of "result_of 1 ''o'' ''e'' None" "scenario run_status_ok (\<lambda>s. None) Map.empty" "[]" "[]"]
    new_GitError_isRawMessage [of "result_of 1 ''o'' [] None" "scenario run_status_ok (\<lambda>s. None) Map.empty" "[]" "[]"]
    new_GitError_isRawMessage [of "result_of 1 [] [] None" "scenario run_status_ok (\<lambda>s. None) Map.empty" "[]" "[]"]
  by (simp add: result_of_def truthy_def coerceToString_def n)
qed

subsection \<open>Options and failures of the subprocess\<close>

text \<open>
  The options of the caller are spread over the defaults. A property that is missing
  from the caller's options keeps the default: the success set \<open>{0}\<close>, the empty
  expected-error set, and for \<open>maxBuffer\<close> \<open>Infinity\<close> when the caller's encoding is
  \<open>'buffer'\<close> and \<open>kStringMaxLength\<close> otherwise. A property that is present replaces the
  default, whatever it holds.
\<close>

lemma git_defaults:
  "((case options of None \<Rightarrow> True | Some opt \<Rightarrow> successExitCodes opt = Absent) \<longrightarrow>
      successExitCodes (git_options d path' options) = Value {0}) \<and>
   ((case options of None \<Rightarrow> True | Some opt \<Rightarrow> expectedErrors opt = Absent) \<longrightarrow>
      expectedErrors (git_options d path' options) = Value {}) \<and>
   ((case options of None \<Rightarrow> True | Some opt \<Rightarrow> maxBuffer opt = Absent) \<longrightarrow>
      maxBuffer (git_options d path' options) =
        Value (if (case options of Some opt \<Rightarrow> encoding opt = Value buffer | None \<Rightarrow> False)
               then \<infinity> else enat (kStringMaxLength d))) \<and>
   (\<forall>opt. options = Some opt \<and> successExitCodes opt \<noteq> Absent \<longrightarrow>
      successExitCodes (git_options d path' options) = successExitCodes opt) \<and>
   (\<forall>opt. options = Some opt \<and> expectedErrors opt \<noteq> Absent \<longrightarrow>
      expectedErrors (git_options d path' options) = expectedErrors opt) \<and>
   (\<forall>opt. options = Some opt \<and> maxBuffer opt \<noteq> Absent \<longrightarrow>
      maxBuffer (git_options d path' options) = maxBuffer opt)"
  by (auto simp add: git_options_def git_opts_def Let_def spread_def defaultOptions_def
        spread_property_def split: option.split optional.split)

text \<open>
  C7. The code at the failing input: the caller's options are
  \<open>{ successExitCodes: undefined }\<close>, which supply no success set. The spread copies the
  \<open>undefined\<close> over the default, the merged options hold no success set in place of
  \<open>{0}\<close>, and a run that exits with code 0 is thrown as a \<open>GitError\<close>; likewise
  \<open>{ expectedErrors: undefined }\<close> leaves the merged options without the empty
  expected-error set.
\<close>

theorem git_successExitCodes_undefined:
  "successExitCodes (git_options (scenario run_status_ok (\<lambda>s. None) Map.empty) ''/r''
       (Some (no_options\<lparr>successExitCodes := Undefined\<rparr>))) = Undefined \<and>
   expectedErrors (git_options (scenario run_status_ok (\<lambda>s. None) Map.empty) ''/r''
       (Some (no_options\<lparr>expectedErrors := Undefined\<rparr>))) = Undefined \<and>
   git (scenario run_status_ok (\<lambda>s. None) Map.empty) [''status''] ''/r'' ''getStatus''
       (Some (no_options\<lparr>successExitCodes := Undefined\<rparr>)) =
     Inl (GitErrorThrown
       \<lparr>message = ''On branch main'', name = ''GitError'',
        result = \<lparr>exitCode = 0, stdout = Str ''On branch main'', stderr = Str [],
                  gitError = None, gitErrorDescription = None, path = ''/r''\<rparr>,
        args = [''status''], isRawMessage = True\<rparr>)"
proof -
  let ?d = "scenario run_status_ok (\<lambda>s. None) Map.empty"
  have cl: "\<And>run res. classify (scenario run (\<lambda>s. None) Map.empty) res = None"
    by (simp add: classify_def scenario_def)
  have run: "\<And>a options. git_run ?d a ''/r'' options = run_status_ok"
    by simp
  have "git ?d [''status''] ''/r'' ''getStatus''
          (Some (no_options\<lparr>successExitCodes := Undefined\<rparr>)) =
          Inl (GitErrorThrown (new_GitError ?d
            \<lparr>exitCode = 0, stdout = Str ''On branch main'', stderr = Str [],
             gitError = None, gitErrorDescription = None, path = ''/r''\<rparr>
            [''status''] (terminal run_status_ok)))"
    unfolding git_unfold run Let_def
    by (simp add: cl git_options_fields run_status_ok_def no_options_def spread_property_def)
  then show ?thesis
    by (simp add: new_GitError_def truthy_def run_status_ok_def git_options_fields
          no_options_def spread_property_def)
qed

text \<open>
  C8. When \<open>exec\<close> fails with an errno exception, \<open>git\<close> throws a plain error (not a
  \<open>GitError\<close>) with the message \<open>Failed to execute <name>: <code>\<close>, whatever the
  classifier is: \<open>parseError\<close> is not applied.
\<close>

theorem git_spawn_failure:
  assumes "outcome (git_run d args' path' options) = Inl (ErrnoException code)"
  shows "\<forall>pe. git (d\<lparr>parseError := pe\<rparr>) args' path' name' options =
           Inl (ErrorThrown (''Failed to execute '' @ name' @ '': '' @ code))"
  using assms by (simp add: git_unfold)

theorem git_spawn_failure_witness:
  "outcome (git_run (scenario \<lparr>outcome = Inl (ErrnoException ''ENOENT''), terminal = []\<rparr>
        (\<lambda>s. Some NotAGitRepository) Map.empty) [''status''] ''/r'' None) =
     Inl (ErrnoException ''ENOENT'') \<and>
   (\<forall>pe. git (scenario \<lparr>outcome = Inl (ErrnoException ''ENOENT''), terminal = []\<rparr>
        (\<lambda>s. Some NotAGitRepository) Map.empty\<lparr>parseError := pe\<rparr>) [''status''] ''/r'' ''getStatus'' None =
      Inl (ErrorThrown ''Failed to execute getStatus: ENOENT''))"
  using git_spawn_failure [of "scenario \<lparr>outcome = Inl (ErrnoException ''ENOENT''), terminal = []\<rparr>
        (\<lambda>s. Some NotAGitRepository) Map.empty" "[''status'']" "''/r''" None "''ENOENT''" "''getStatus''"]
  by simp

subsection \<open>The environment of the subprocess\<close>

text \<open>
  C4, as amended. The environment handed to \<open>exec\<close> binds \<open>TERM\<close> to \<open>dumb\<close> when
  neither the resolved environment nor the caller's \<open>env\<close> has a \<open>TERM\<close> property; a
  \<open>TERM\<close> of the resolved environment, or else of the caller's \<open>env\<close>, is handed on as
  it is.
\<close>

theorem git_options_TERM:
  "\<exists>e. env (git_options d path' options) = Value e \<and>
     e ''TERM'' =
       (case trampolineEnv d path' (options_isBackgroundTask options) (options_env options) ''TERM'' of
          Some v \<Rightarrow> Some v
        | None \<Rightarrow>
            (case options_env options of
               None \<Rightarrow> Some (Some ''dumb'')
             | Some callerEnv \<Rightarrow>
                 (case callerEnv ''TERM'' of None \<Rightarrow> Some (Some ''dumb'') | Some v \<Rightarrow> Some v)))"
  by (auto simp add: git_options_def git_opts_def Let_def spread_def defaultOptions_def
        spread_property_def merge_def options_env_def map_add_def
        split: option.split optional.split)

text \<open>
  C4 as stated fails: \<open>{ TERM: 'dumb', ...combinedEnv }\<close> spreads the combined
  environment over the \<open>TERM\<close> entry, so a caller's \<open>TERM\<close> reaches the subprocess.
\<close>

theorem git_options_TERM_counterexample:
  "(case env (git_options (scenario run_status_ok (\<lambda>s. None) Map.empty) ''/r''
            (Some option_env_TERM)) of
      Value e \<Rightarrow> e ''TERM'' | _ \<Rightarrow> None) = Some (Some ''xterm-256color'')"
  by (simp add: git_options_def git_opts_def Let_def spread_def defaultOptions_def
        spread_property_def merge_def options_env_def map_add_def option_env_TERM_def
        no_options_def scenario_def)

subsection \<open>The lock file pattern, line by line\<close>

lemma split_lines_nonempty: "split_lines us \<noteq> []"
  by (induction us rule: split_lines.induct) (auto split: list.splits)

lemma hd_split_lines: "hd (split_lines us) = first_line us"
  by (induction us rule: split_lines.induct) (auto simp: split_lines_nonempty split: list.splits)

lemma split_lines_Ch: "split_lines (Ch c # us) = (c # hd (split_lines us)) # tl (split_lines us)"
  using split_lines_nonempty [of us] by (cases "split_lines us") auto

lemma first_line_decomp: "us = map Ch (first_line us) @ after_first_line us"
  by (induction us rule: first_line.induct) auto

lemma at_line_end_after: "at_line_end (after_first_line us)"
  by (induction us rule: after_first_line.induct) (auto simp: at_line_end_def)

lemma starts_with_line:
  "at_line_end r \<Longrightarrow>
   starts_with cs (map Ch l @ r) =
     (if take (length cs) l = cs then Some (map Ch (drop (length cs) l) @ r) else None)"
proof (induction cs arbitrary: l)
  case Nil
  then show ?case by simp
next
  case (Cons c cs)
  show ?case
  proof (cases l)
    case Nil
    then show ?thesis using Cons.prems by (cases r) (auto simp: at_line_end_def)
  next
    case (Cons x l')
    then show ?thesis using Cons.IH [OF Cons.prems, of l'] by auto
  qed
qed

lemma suffix_at_end:
  assumes "at_line_end r"
  shows "(case starts_with lock_suffix (map Ch l @ r) of Some rest \<Rightarrow> at_line_end rest | None \<Rightarrow> False)
           \<longleftrightarrow> l = lock_suffix"
proof -
  have *: "starts_with lock_suffix (map Ch l @ r) =
      (if take (length lock_suffix) l = lock_suffix
       then Some (map Ch (drop (length lock_suffix) l) @ r) else None)"
    using starts_with_line [OF assms] .
  show ?thesis
  proof (cases "take (length lock_suffix) l = lock_suffix")
    case False
    then have "l \<noteq> lock_suffix" by auto
    with False * show ?thesis by simp
  next
    case True
    show ?thesis
    proof (cases "drop (length lock_suffix) l")
      case Nil
      then have "l = lock_suffix" using True by (metis append_Nil2 append_take_drop_id)
      with * assms show ?thesis by simp
    next
      case (Cons x xs)
      then have "l \<noteq> lock_suffix" by auto
      with * True Cons show ?thesis by (simp add: at_line_end_def)
    qed
  qed
qed

lemma capture_lazy_line:
  "at_line_end r \<Longrightarrow> capture_lazy cap (map Ch l @ r) = line_capture cap l"
proof (induction l arbitrary: cap)
  case Nil
  then show ?case by (cases r) (auto simp: at_line_end_def)
next
  case (Cons c l)
  show ?case
    using suffix_at_end [OF Cons.prems, of l] Cons.IH [OF Cons.prems]
    by (auto split: option.splits)
qed

lemma line_capture_iff:
  "line_capture cap l = Some q \<longleftrightarrow> (\<exists>p. p \<noteq> [] \<and> l = p @ lock_suffix \<and> q = cap @ p)"
proof (induction l arbitrary: cap)
  case Nil
  then show ?case by (simp add: lock_suffix_def)
next
  case (Cons c l)
  show ?case
  proof (cases "l = lock_suffix")
    case True
    have "\<And>p. c # lock_suffix = p @ lock_suffix \<longleftrightarrow> p = [c]"
      using same_append_eq [of "[c]" lock_suffix] by auto
    then have "(\<exists>p. p \<noteq> [] \<and> c # lock_suffix = p @ lock_suffix \<and> q = cap @ p) \<longleftrightarrow> q = cap @ [c]"
      by auto
    with True show ?thesis by (simp only: line_capture.simps if_True) auto
  next
    case False
    have "(\<exists>p. p \<noteq> [] \<and> c # l = p @ lock_suffix \<and> q = cap @ p) \<longleftrightarrow>
          (\<exists>p'. p' \<noteq> [] \<and> l = p' @ lock_suffix \<and> q = (cap @ [c]) @ p')"
    proof
      assume "\<exists>p. p \<noteq> [] \<and> c # l = p @ lock_suffix \<and> q = cap @ p"
      then obtain p where p: "p \<noteq> []" "c # l = p @ lock_suffix" "q = cap @ p" by blast
      then obtain p' where p': "p = c # p'" by (cases p) auto
      with p False have "p' \<noteq> []" "l = p' @ lock_suffix" "q = (cap @ [c]) @ p'" by auto
      then show "\<exists>p'. p' \<noteq> [] \<and> l = p' @ lock_suffix \<and> q = (cap @ [c]) @ p'" by blast
    next
      assume "\<exists>p'. p' \<noteq> [] \<and> l = p' @ lock_suffix \<and> q = (cap @ [c]) @ p'"
      then obtain p' where "p' \<noteq> []" "l = p' @ lock_suffix" "q = (cap @ [c]) @ p'" by blast
      then have "c # p' \<noteq> [] \<and> c # l = (c # p') @ lock_suffix \<and> q = cap @ (c # p')" by simp
      then show "\<exists>p. p \<noteq> [] \<and> c # l = p @ lock_suffix \<and> q = cap @ p" by blast
    qed
    with False Cons.IH [of "cap @ [c]"] show ?thesis by simp
  qed
qed

lemma lock_line_path_iff: "lock_line_path l = Some p \<longleftrightarrow> lock_line p l"
proof -
  have "take (length lock_prefix) l = lock_prefix \<and> (\<exists>p'. p' \<noteq> [] \<and> drop (length lock_prefix) l = p' @ lock_suffix \<and> p = p')
        \<longleftrightarrow> p \<noteq> [] \<and> l = lock_prefix @ p @ lock_suffix"
    by (metis append_eq_conv_conj append_take_drop_id)
  then show ?thesis
    by (auto simp: lock_line_path_def lock_line_def line_capture_iff)
qed

lemma match_here_line: "match_here us = lock_line_path (first_line us)"
proof -
  have "match_here (map Ch (first_line us) @ after_first_line us) = lock_line_path (first_line us)"
    by (simp add: match_here_def lock_line_path_def starts_with_line [OF at_line_end_after]
        capture_lazy_line [OF at_line_end_after])
  then show ?thesis using first_line_decomp [of us] by simp
qed

lemma lock_line_path_Nil [simp]: "lock_line_path [] = None"
  by (simp add: lock_line_path_def lock_prefix_def)

lemma exec_from_lines:
  "exec_from True us = first_match (split_lines us) \<and>
   exec_from False us = first_match (tl (split_lines us))"
proof (induction us)
  case Nil
  then show ?case by simp
next
  case (Cons u us)
  show ?case
  proof (cases u)
    case LineTerminator
    have "match_here (LineTerminator # us) = None"
      by (simp add: match_here_line)
    with LineTerminator Cons show ?thesis by simp
  next
    case (Ch c)
    have m: "match_here (Ch c # us) = lock_line_path (c # hd (split_lines us))"
      by (simp add: match_here_line hd_split_lines)
    show ?thesis using Ch Cons m by (auto simp: split_lines_Ch simp del: split_lines.simps split: option.splits)
  qed
qed

lemma lockFilePathRe_exec_lines: "lockFilePathRe_exec s = first_match (js_lines s)"
  by (simp add: lockFilePathRe_exec_def js_lines_def exec_from_lines)

lemma first_match_None: "first_match ls = None \<longleftrightarrow> (\<forall>l\<in>set ls. \<forall>p. \<not> lock_line p l)"
  by (induction ls) (auto simp: lock_line_path_iff [symmetric] split: option.splits)

lemma first_match_first:
  "\<forall>l\<in>set before. \<forall>p. \<not> lock_line p l \<Longrightarrow> lock_line p l \<Longrightarrow>
   first_match (before @ l # after) = Some p"
  by (induction before) (auto simp: lock_line_path_iff [symmetric] split: option.splits)

lemma posix_resolve_lock: "posix_resolve cwd from ''/r/.git/config.lock'' = ''/r/.git/config.lock''"
  by (simp add: posix_resolve_def)

lemma js_lines_not_a_repository:
  "js_lines ''fatal: not a git repository (or any of the parent directories): .git'' =
     [''fatal: not a git repository (or any of the parent directories): .git'']"
  by (simp add: js_lines_def)

lemma config_lock_line:
  "lock_line ''/r/.git/config'' ''error: could not lock config file /r/.git/config: File exists''"
  by (simp add: lock_line_def lock_prefix_def lock_suffix_def)

lemma parseError_model_first:
  "\<forall>entry\<in>set higher. \<not> fst entry text' \<Longrightarrow> pattern text' \<Longrightarrow>
   parseError_model (higher @ (pattern, code) # lower) text' = Some code"
  by (induction higher) auto

lemma js_lines_config_lock:
  "js_lines ''error: could not lock config file /r/.git/config: File exists'' =
     [''error: could not lock config file /r/.git/config: File exists'']"
  by (simp add: js_lines_def)

subsection \<open>The path of the config lock file\<close>

text \<open>
  C6, as amended. When the first line of stderr that has the form
  \<open>error: could not lock config file <path>: File exists\<close> is the line for the path
  \<open>/r/.git/config\<close>, then on a build that is not for Windows, with the path functions
  of POSIX, \<open>parseConfigLockFilePathFromError\<close> returns \<open>/r/.git/config.lock\<close>: the
  captured path with \<open>.lock\<close> appended, resolved against the working directory of the
  result, which does not show since the captured path is absolute. A first-match-wins
  classifier with the config-lock pattern in its table yields
  \<open>ConfigLockFileAlreadyExists\<close> for that text when no entry of higher priority
  matches it.
\<close>

theorem parseConfigLockFilePathFromError_first_line:
  assumes lines: "js_lines (coerceToString d (stderr r)) =
            before @ ''error: could not lock config file /r/.git/config: File exists'' # after"
      and before: "\<And>l p. l \<in> set before \<Longrightarrow> \<not> lock_line p l"
      and posix: "\<not> WIN32 d" "resolve d = posix_resolve cwd"
      and higher: "\<forall>entry\<in>set higher. \<not> fst entry (coerceToString d (stderr r))"
  shows "parseError_model (higher @ (config_lock_pattern, ConfigLockFileAlreadyExists) # lower)
           (coerceToString d (stderr r)) = Some ConfigLockFileAlreadyExists \<and>
         parseConfigLockFilePathFromError d r = Some ''/r/.git/config.lock''"
proof
  have pat: "config_lock_pattern (coerceToString d (stderr r))"
    unfolding config_lock_pattern_def lines
    using config_lock_line
    by (intro exI [of _ "''error: could not lock config file /r/.git/config: File exists''"]
          exI [of _ "[]"] exI [of _ "''/r/.git/config''"])
       (simp add: lock_line_def)
  show "parseError_model (higher @ (config_lock_pattern, ConfigLockFileAlreadyExists) # lower)
          (coerceToString d (stderr r)) = Some ConfigLockFileAlreadyExists"
    using higher pat by (rule parseError_model_first)
next
  have "first_match (js_lines (coerceToString d (stderr r))) = Some ''/r/.git/config''"
    unfolding lines using before config_lock_line by (intro first_match_first) auto
  then show "parseConfigLockFilePathFromError d r = Some ''/r/.git/config.lock''"
    using posix
    by (simp add: parseConfigLockFilePathFromError_def lockFilePathRe_exec_lines posix_resolve_lock)
qed

theorem parseConfigLockFilePathFromError_first_line_witness:
  "parseError_model [(fatal_pattern, NotAGitRepository),
       (config_lock_pattern, ConfigLockFileAlreadyExists), (fatal_pattern, BadRevision)]
     (coerceToString (scenario run_status_ok (\<lambda>s. None) Map.empty) (stderr result_config_lock)) =
     Some ConfigLockFileAlreadyExists \<and>
   parseConfigLockFilePathFromError (scenario run_status_ok (\<lambda>s. None) Map.empty)
     result_config_lock = Some ''/r/.git/config.lock''"
proof -
  let ?d = "scenario run_status_ok (\<lambda>s. None) Map.empty"
  have str: "coerceToString ?d (stderr result_config_lock) =
      ''error: could not lock config file /r/.git/config: File exists''"
    by (simp add: coerceToString_def result_config_lock_def)
  have lines: "js_lines (coerceToString ?d (stderr result_config_lock)) =
      [] @ ''error: could not lock config file /r/.git/config: File exists'' # []"
    by (simp add: str js_lines_config_lock)
  have before: "\<And>l p. l \<in> set [] \<Longrightarrow> \<not> lock_line p l"
    by simp
  have posix: "\<not> WIN32 ?d" "resolve ?d = posix_resolve ''/''"
    by (simp_all add: scenario_def)
  have higher: "\<forall>entry\<in>set [(fatal_pattern, NotAGitRepository)].
      \<not> fst entry (coerceToString ?d (stderr result_config_lock))"
    by (simp add: str fatal_pattern_def)
  show ?thesis
    using parseConfigLockFilePathFromError_first_line
      [where d = ?d and r = result_config_lock and before = "[]" and after = "[]"
         and cwd = "''/''" and higher = "[(fatal_pattern, NotAGitRepository)]"
         and lower = "[(fatal_pattern, BadRevision)]", OF lines before posix higher]
    by simp
qed

text \<open>
  C6 as stated fails: \<open>exec\<close> returns the first match, so when an earlier line of
  stderr is a lock line for another path, that path comes back although stderr contains
  the line for \<open>/r/.git/config\<close>.
\<close>

theorem parseConfigLockFilePathFromError_first_line_counterexample:
  "''error: could not lock config file /r/.git/config: File exists'' \<in>
     set (js_lines (coerceToString (scenario run_status_ok (\<lambda>s. None) Map.empty)
       (stderr result_two_config_locks))) \<and>
   parseConfigLockFilePathFromError (scenario run_status_ok (\<lambda>s. None) Map.empty)
     result_two_config_locks = Some ''/a/.git/config.lock''"
proof -
  let ?d = "scenario run_status_ok (\<lambda>s. None) Map.empty"
  have lines: "js_lines (coerceToString ?d (stderr result_two_config_locks)) =
      [''error: could not lock config file /a/.git/config: File exists'',
       ''error: could not lock config file /r/.git/config: File exists'']"
    by (simp add: coerceToString_def result_two_config_locks_def js_lines_def)
  have a: "lock_line ''/a/.git/config'' ''error: could not lock config file /a/.git/config: File exists''"
    by (simp add: lock_line_def lock_prefix_def lock_suffix_def)
  have "first_match (js_lines (coerceToString ?d (stderr result_two_config_locks))) =
      Some ''/a/.git/config''"
    unfolding lines using lock_line_path_iff [THEN iffD2, OF a] by simp
  then have "parseConfigLockFilePathFromError ?d result_two_config_locks =
      Some (posix_resolve ''/'' ''/r'' ''/a/.git/config.lock'')"
    by (simp add: parseConfigLockFilePathFromError_def lockFilePathRe_exec_lines scenario_def
        result_two_config_locks_def)
  moreover have "posix_resolve ''/'' ''/r'' ''/a/.git/config.lock'' = ''/a/.git/config.lock''"
    by (simp add: posix_resolve_def)
  ultimately show ?thesis using lines by simp
qed

text \<open>
  C10. When no line of stderr has the form
  \<open>error: could not lock config file <path>: File exists\<close> with a non-empty path,
  \<open>parseConfigLockFilePathFromError\<close> returns null; the function has no branch that
  throws.
\<close>

theorem parseConfigLockFilePathFromError_null:
  assumes "\<And>l p. l \<in> set (js_lines (coerceToString d (stderr r))) \<Longrightarrow> \<not> lock_line p l"
  shows "parseConfigLockFilePathFromError d r = None"
proof -
  have "first_match (js_lines (coerceToString d (stderr r))) = None"
    using assms by (simp add: first_match_None)
  then show ?thesis
    by (simp add: parseConfigLockFilePathFromError_def lockFilePathRe_exec_lines)
qed

theorem parseConfigLockFilePathFromError_null_witness:
  "js_lines (coerceToString (scenario run_status_ok (\<lambda>s. None) Map.empty)
      (stderr result_not_a_repository)) =
     [''fatal: not a git repository (or any of the parent directories): .git''] \<and>
   parseConfigLockFilePathFromError (scenario run_status_ok (\<lambda>s. None) Map.empty)
     result_not_a_repository = None"
proof -
  let ?d = "scenario run_status_ok (\<lambda>s. None) Map.empty"
  have lines: "js_lines (coerceToString ?d (stderr result_not_a_repository)) =
     [''fatal: not a git repository (or any of the parent directories): .git'']"
    by (simp add: coerceToString_def result_not_a_repository_def js_lines_not_a_repository)
  have "\<And>l p. l \<in> set (js_lines (coerceToString ?d (stderr result_not_a_repository))) \<Longrightarrow>
          \<not> lock_line p l"
    unfolding lines by (simp add: lock_line_def lock_prefix_def)
  then have "parseConfigLockFilePathFromError ?d result_not_a_repository = None"
    by (rule parseConfigLockFilePathFromError_null)
  with lines show ?thesis by simp
qed

end
